theory Spec2Isabelle
  imports Complex_Main
begin

section \<open>JavaScript numbers\<close>

text \<open>
  The scene code computes on JavaScript numbers. A finite double is idealised as the real
  it denotes (rounding is not modelled, and the infinities are left out); the one special
  value the code can be handed by a misbehaving clock, NaN, is kept: every arithmetic
  operation and \<open>Math.sin\<close> propagate it, and every comparison with it is false.

  \<open>num_add\<close> and \<open>num_mul\<close> are the exact sum and product. They serve where a
  statement is about the size of a transform, which rounding moves in the sixteenth
  digit. Where rounding decides the outcome (which counts the typed array refuses,
  whether a small increment still moves an angle), the operations rounded to binary64
  of the next section are used.
\<close>

datatype number = NaN | Fin real

fun num_add :: "number \<Rightarrow> number \<Rightarrow> number" where
  "num_add (Fin a) (Fin b) = Fin (a + b)"
| "num_add _ _ = NaN"

fun num_mul :: "number \<Rightarrow> number \<Rightarrow> number" where
  "num_mul (Fin a) (Fin b) = Fin (a * b)"
| "num_mul _ _ = NaN"

fun num_less :: "number \<Rightarrow> number \<Rightarrow> bool" where
  "num_less (Fin a) (Fin b) = (a < b)"
| "num_less _ _ = False"

fun Math_sin :: "number \<Rightarrow> number" where
  "Math_sin (Fin a) = Fin (sin a)"
| "Math_sin NaN = NaN"

type_synonym vec3 = "number \<times> number \<times> number"

text \<open>An optional prop with a default value: \<open>{ speed = 1 }\<close>.\<close>

fun default_prop :: "'a \<Rightarrow> 'a option \<Rightarrow> 'a" where
  "default_prop d None = d"
| "default_prop d (Some v) = v"

section \<open>Double precision\<close>

text \<open>
  IEEE 754 binary64, round to nearest, ties to even. The exponent of a nonzero \<open>x\<close> is
  that of its binade, not below -1022 (the subnormal range); a double is a multiple of
  2^(exponent - 52), and rounding takes the nearest multiple, the even one at a tie.
  \<open>binary64\<close> is defined on all reals: a result above \<open>max_double\<close> stands for what
  is Infinity in JavaScript, so the statements about doubles below stay within
  \<open>is_double\<close>. A numeric literal of the source denotes the double nearest to it,
  \<open>binary64 0.003\<close> for \<open>0.003\<close>.
\<close>

definition round_half_even :: "real \<Rightarrow> int" where
  "round_half_even z =
     (let f = \<lfloor>z\<rfloor>
      in if z - of_int f < 1 / 2 then f
         else if 1 / 2 < z - of_int f then f + 1
         else if even f then f else f + 1)"

definition binary64_exponent :: "real \<Rightarrow> int" where
  "binary64_exponent x = max \<lfloor>log 2 \<bar>x\<bar>\<rfloor> (- 1022)"

definition binary64 :: "real \<Rightarrow> real" where
  "binary64 x =
     (if x = 0 then 0
      else let u = 2 powr of_int (binary64_exponent x - 52)
           in u * of_int (round_half_even (x / u)))"

definition max_double :: real where
  "max_double = (2 ^ 53 - 1) * 2 ^ 971"

definition is_double :: "real \<Rightarrow> bool" where
  "is_double x = (binary64 x = x \<and> \<bar>x\<bar> \<le> max_double)"

fun double_add :: "number \<Rightarrow> number \<Rightarrow> number" where
  "double_add (Fin a) (Fin b) = Fin (binary64 (a + b))"
| "double_add _ _ = NaN"

fun double_mul :: "number \<Rightarrow> number \<Rightarrow> number" where
  "double_mul (Fin a) (Fin b) = Fin (binary64 (a * b))"
| "double_mul _ _ = NaN"

text \<open>
  \<open>Math.sin\<close> on doubles is implementation-approximated: the engine's function on finite
  doubles is the parameter \<open>sine\<close>.
\<close>

fun Math_sin_double :: "(real \<Rightarrow> real) \<Rightarrow> number \<Rightarrow> number" where
  "Math_sin_double sine (Fin a) = Fin (sine a)"
| "Math_sin_double sine NaN = NaN"

section \<open>The animated object\<close>

text \<open>
  \<open>ref.current\<close> is a THREE.Object3D; the callbacks read and write its Euler rotation
  and its position.
\<close>

record object3d =
  rot_x :: number
  rot_y :: number
  rot_z :: number
  pos_x :: number
  pos_y :: number
  pos_z :: number

section \<open>The per-frame callbacks\<close>

text \<open>
  Each component registers one \<open>useFrame\<close> callback. The renderer calls it once per
  rendered frame with \<open>state.clock.elapsedTime\<close>; the callback mutates the object in
  place, which is state passing here. Statements are kept in source order. The \<open>Float\<close>
  wrapper around most meshes is a library component that moves a group of its own
  around the mesh; it does not write to the object the callback holds, and is not
  part of this model.
\<close>

definition CosmicOrb_useFrame :: "number option \<Rightarrow> number \<Rightarrow> object3d \<Rightarrow> object3d" where
  "CosmicOrb_useFrame speed_prop elapsedTime ref =
     (let speed = default_prop (Fin 1) speed_prop;
          ref1 = ref\<lparr>rot_x := num_mul (Math_sin (num_mul (num_mul elapsedTime speed) (Fin 0.3))) (Fin 0.2)\<rparr>;
          ref2 = ref1\<lparr>rot_y := num_add (rot_y ref1) (num_mul (Fin 0.003) speed)\<rparr>
      in ref2)"

definition FloatingRing_useFrame :: "number \<Rightarrow> object3d \<Rightarrow> object3d" where
  "FloatingRing_useFrame elapsedTime ref =
     (let ref1 = ref\<lparr>rot_x := num_mul elapsedTime (Fin 0.2)\<rparr>;
          ref2 = ref1\<lparr>rot_z := num_mul (Math_sin (num_mul elapsedTime (Fin 0.3))) (Fin 0.5)\<rparr>
      in ref2)"

definition NeonTorus_useFrame :: "number \<Rightarrow> object3d \<Rightarrow> object3d" where
  "NeonTorus_useFrame elapsedTime ref =
     (let ref1 = ref\<lparr>rot_x := num_mul elapsedTime (Fin 0.3)\<rparr>;
          ref2 = ref1\<lparr>rot_y := num_mul elapsedTime (Fin 0.2)\<rparr>
      in ref2)"

definition NeonOctahedron_useFrame :: "number \<Rightarrow> object3d \<Rightarrow> object3d" where
  "NeonOctahedron_useFrame elapsedTime ref =
     (let ref1 = ref\<lparr>rot_y := num_add (rot_y ref) (Fin 0.01)\<rparr>;
          ref2 = ref1\<lparr>rot_z := num_mul (Math_sin (num_mul elapsedTime (Fin 0.4))) (Fin 0.3)\<rparr>
      in ref2)"

definition GeoBlock_useFrame :: "number \<Rightarrow> object3d \<Rightarrow> object3d" where
  "GeoBlock_useFrame elapsedTime ref =
     (let ref1 = ref\<lparr>rot_y := num_add (rot_y ref) (Fin 0.005)\<rparr>;
          ref2 = ref1\<lparr>rot_x := num_mul (Math_sin (num_mul elapsedTime (Fin 0.3))) (Fin 0.1)\<rparr>
      in ref2)"

definition GeoCylinder_useFrame :: "number \<Rightarrow> object3d \<Rightarrow> object3d" where
  "GeoCylinder_useFrame elapsedTime ref = ref\<lparr>rot_z := num_mul elapsedTime (Fin 0.2)\<rparr>"

text \<open>\<open>position[1]\<close> is the second component of the \<open>position\<close> prop.\<close>

definition GeoSphere_useFrame :: "vec3 \<Rightarrow> number \<Rightarrow> object3d \<Rightarrow> object3d" where
  "GeoSphere_useFrame position elapsedTime ref =
     ref\<lparr>pos_y := num_add (fst (snd position))
                       (num_mul (Math_sin (num_mul elapsedTime (Fin 0.5))) (Fin 0.2))\<rparr>"

definition GlassOrb_useFrame :: "vec3 \<Rightarrow> number \<Rightarrow> object3d \<Rightarrow> object3d" where
  "GlassOrb_useFrame position elapsedTime ref =
     (let ref1 = ref\<lparr>rot_y := num_add (rot_y ref) (Fin 0.003)\<rparr>;
          ref2 = ref1\<lparr>pos_y := num_add (fst (snd position))
                                  (num_mul (Math_sin (num_mul elapsedTime (Fin 0.5))) (Fin 0.3))\<rparr>
      in ref2)"

definition OrganicBlob_useFrame :: "number \<Rightarrow> object3d \<Rightarrow> object3d" where
  "OrganicBlob_useFrame elapsedTime ref =
     (let ref1 = ref\<lparr>rot_y := num_add (rot_y ref) (Fin 0.002)\<rparr>;
          ref2 = ref1\<lparr>rot_x := num_mul (Math_sin (num_mul elapsedTime (Fin 0.2))) (Fin 0.1)\<rparr>
      in ref2)"

definition LeafShape_useFrame :: "number \<Rightarrow> object3d \<Rightarrow> object3d" where
  "LeafShape_useFrame elapsedTime ref =
     (let ref1 = ref\<lparr>rot_z := num_mul (Math_sin (num_mul elapsedTime (Fin 0.3))) (Fin 0.15)\<rparr>;
          ref2 = ref1\<lparr>rot_y := num_add (rot_y ref1) (Fin 0.003)\<rparr>
      in ref2)"

text \<open>
  The three callbacks whose accumulated rotation.y is followed frame by frame, with
  every operation rounded to binary64 and every literal the double it denotes.
\<close>

definition CosmicOrb_useFrame_double ::
  "(real \<Rightarrow> real) \<Rightarrow> number option \<Rightarrow> number \<Rightarrow> object3d \<Rightarrow> object3d" where
  "CosmicOrb_useFrame_double sine speed_prop elapsedTime ref =
     (let speed = default_prop (Fin 1) speed_prop;
          ref1 = ref\<lparr>rot_x := double_mul (Math_sin_double sine
                                 (double_mul (double_mul elapsedTime speed) (Fin (binary64 0.3))))
                               (Fin (binary64 0.2))\<rparr>;
          ref2 = ref1\<lparr>rot_y := double_add (rot_y ref1) (double_mul (Fin (binary64 0.003)) speed)\<rparr>
      in ref2)"

definition NeonOctahedron_useFrame_double :: "(real \<Rightarrow> real) \<Rightarrow> number \<Rightarrow> object3d \<Rightarrow> object3d" where
  "NeonOctahedron_useFrame_double sine elapsedTime ref =
     (let ref1 = ref\<lparr>rot_y := double_add (rot_y ref) (Fin (binary64 0.01))\<rparr>;
          ref2 = ref1\<lparr>rot_z := double_mul (Math_sin_double sine (double_mul elapsedTime (Fin (binary64 0.4))))
                                (Fin (binary64 0.3))\<rparr>
      in ref2)"

definition OrganicBlob_useFrame_double :: "(real \<Rightarrow> real) \<Rightarrow> number \<Rightarrow> object3d \<Rightarrow> object3d" where
  "OrganicBlob_useFrame_double sine elapsedTime ref =
     (let ref1 = ref\<lparr>rot_y := double_add (rot_y ref) (Fin (binary64 0.002))\<rparr>;
          ref2 = ref1\<lparr>rot_x := double_mul (Math_sin_double sine (double_mul elapsedTime (Fin (binary64 0.2))))
                                (Fin (binary64 0.1))\<rparr>
      in ref2)"

section \<open>Entities and their props\<close>

text \<open>
  One constructor per component, carrying the props of its JSX element in the order of
  the component's signature: position, color, then the optional ones. \<open>Mesh\<close> is a bare
  \<open>mesh\<close> element placed in a scene without a callback.
\<close>

datatype entity =
    CosmicOrb vec3 string "number option" "number option" "number option"
  | FloatingRing vec3 string
  | NeonTorus vec3 string
  | NeonOctahedron vec3 string
  | GeoBlock vec3 string "vec3 option"
  | GeoCylinder vec3 string
  | GeoSphere vec3 string "number option"
  | GlassOrb vec3 string "number option"
  | OrganicBlob vec3 string "number option"
  | LeafShape vec3 string "vec3 option"
  | Mesh vec3 "vec3 option" string

fun useFrame :: "entity \<Rightarrow> number \<Rightarrow> object3d \<Rightarrow> object3d" where
  "useFrame (CosmicOrb position color speed distort sz) = CosmicOrb_useFrame speed"
| "useFrame (FloatingRing position color) = FloatingRing_useFrame"
| "useFrame (NeonTorus position color) = NeonTorus_useFrame"
| "useFrame (NeonOctahedron position color) = NeonOctahedron_useFrame"
| "useFrame (GeoBlock position color rotation) = GeoBlock_useFrame"
| "useFrame (GeoCylinder position color) = GeoCylinder_useFrame"
| "useFrame (GeoSphere position color sz) = GeoSphere_useFrame position"
| "useFrame (GlassOrb position color sz) = GlassOrb_useFrame position"
| "useFrame (OrganicBlob position color sz) = OrganicBlob_useFrame"
| "useFrame (LeafShape position color rotation) = LeafShape_useFrame"
| "useFrame (Mesh position rotation color) = (\<lambda>elapsedTime ref. ref)"

text \<open>
  The object as the element creates it: \<open>position={position}\<close>, \<open>rotation={rotation}\<close>
  where the element passes it, and the Object3D default rotation (0, 0, 0) otherwise.
\<close>

definition object_at :: "vec3 \<Rightarrow> vec3 option \<Rightarrow> object3d" where
  "object_at position rotation =
     (let r = default_prop (Fin 0, Fin 0, Fin 0) rotation
      in \<lparr>rot_x = fst r, rot_y = fst (snd r), rot_z = snd (snd r),
          pos_x = fst position, pos_y = fst (snd position), pos_z = snd (snd position)\<rparr>)"

fun base_position :: "entity \<Rightarrow> vec3" where
  "base_position (CosmicOrb position color speed distort sz) = position"
| "base_position (FloatingRing position color) = position"
| "base_position (NeonTorus position color) = position"
| "base_position (NeonOctahedron position color) = position"
| "base_position (GeoBlock position color rotation) = position"
| "base_position (GeoCylinder position color) = position"
| "base_position (GeoSphere position color sz) = position"
| "base_position (GlassOrb position color sz) = position"
| "base_position (OrganicBlob position color sz) = position"
| "base_position (LeafShape position color rotation) = position"
| "base_position (Mesh position rotation color) = position"

fun base_rotation :: "entity \<Rightarrow> vec3 option" where
  "base_rotation (GeoBlock position color rotation) = rotation"
| "base_rotation (LeafShape position color rotation) = rotation"
| "base_rotation (Mesh position rotation color) = rotation"
| "base_rotation _ = None"

definition mount :: "entity \<Rightarrow> object3d" where
  "mount e = object_at (base_position e) (base_rotation e)"

section \<open>The frame loop\<close>

text \<open>
  The renderer's loop calls the callback once per frame, in order, with the clock reading
  of that frame: \<open>frames cb ts s\<close> is the state after the frames whose clock readings
  are \<open>ts\<close>. \<open>ticks dt n\<close> are the readings of \<open>n\<close> frames drawn at a fixed step of
  \<open>dt\<close> seconds, the k-th at \<open>k * dt\<close>: 60 frames per second is \<open>dt = 1 / 60\<close>.
\<close>

fun frames :: "(number \<Rightarrow> 's \<Rightarrow> 's) \<Rightarrow> number list \<Rightarrow> 's \<Rightarrow> 's" where
  "frames cb [] s = s"
| "frames cb (t # ts) s = frames cb ts (cb t s)"

definition ticks :: "real \<Rightarrow> nat \<Rightarrow> number list" where
  "ticks dt n = map (\<lambda>k. Fin (real k * dt)) [1..<Suc n]"

section \<open>The particle field\<close>

text \<open>
  \<open>new Float32Array(length)\<close> converts its argument with ToIndex: NaN becomes 0, any
  other number is truncated towards zero, and a result below 0 or above 2^53 - 1 throws
  RangeError. The array starts filled with zeros. A write to a typed array at an index
  outside it is dropped, which is what list update does. The smaller limit an engine
  puts on the size of a buffer is not modelled.
\<close>

datatype error = RangeError

definition ToIntegerOrInfinity :: "number \<Rightarrow> int" where
  "ToIntegerOrInfinity v = (case v of NaN \<Rightarrow> 0 | Fin r \<Rightarrow> (if r < 0 then \<lceil>r\<rceil> else \<lfloor>r\<rfloor>))"

definition new_Float32Array :: "number \<Rightarrow> error + real list" where
  "new_Float32Array len =
     (let n = ToIntegerOrInfinity len
      in if n < 0 \<or> 2 ^ 53 - 1 < n then Inl RangeError else Inr (replicate (nat n) 0))"

text \<open>
  The loop of the \<open>useMemo\<close> callback. \<open>random k\<close> is the value of the k-th call of
  \<open>Math.random()\<close> (counted from 0); iteration \<open>i\<close> makes the calls 3i, 3i + 1 and
  3i + 2, in this order. The coordinates are kept as exact reals and storing into the
  Float32Array is taken as exact. The length \<open>count * 3\<close> is the double product: it
  decides whether the allocation throws.
\<close>

function ParticleField_loop :: "number \<Rightarrow> (nat \<Rightarrow> real) \<Rightarrow> nat \<Rightarrow> real list \<Rightarrow> real list" where
  "ParticleField_loop count random i pos =
     (if num_less (Fin (real i)) count then
        ParticleField_loop count random (Suc i)
          (pos[i * 3 := (random (3 * i) - 0.5) * 20,
               i * 3 + 1 := (random (3 * i + 1) - 0.5) * 20,
               i * 3 + 2 := (random (3 * i + 2) - 0.5) * 10])
      else pos)"
  by pat_completeness auto
termination
proof (relation "measure (\<lambda>(count, random, i, pos). case count of NaN \<Rightarrow> 0 | Fin c \<Rightarrow> nat \<lceil>c\<rceil> - i)")
  show "wf (measure (\<lambda>(count, random, i, pos). case count of NaN \<Rightarrow> 0 | Fin c \<Rightarrow> nat \<lceil>c\<rceil> - i))"
    by simp
next
  fix count :: number and random :: "nat \<Rightarrow> real" and i :: nat and pos :: "real list"
  assume less: "num_less (Fin (real i)) count"
  then obtain c where c: "count = Fin c" and ic: "real i < c"
    by (cases count) simp_all
  have "real i < real_of_int \<lceil>c\<rceil>"
    using ic by linarith
  then have "i < nat \<lceil>c\<rceil>"
    by linarith
  then show "((count, random, Suc i, pos[i * 3 := (random (3 * i) - 0.5) * 20,
               i * 3 + 1 := (random (3 * i + 1) - 0.5) * 20,
               i * 3 + 2 := (random (3 * i + 2) - 0.5) * 10]), (count, random, i, pos))
             \<in> measure (\<lambda>(count, random, i, pos). case count of NaN \<Rightarrow> 0 | Fin c \<Rightarrow> nat \<lceil>c\<rceil> - i)"
    using c by simp
qed

declare ParticleField_loop.simps [simp del]

definition ParticleField_positions :: "number option \<Rightarrow> (nat \<Rightarrow> real) \<Rightarrow> error + real list" where
  "ParticleField_positions count_prop random =
     (let count = default_prop (Fin 200) count_prop
      in case new_Float32Array (double_mul count (Fin 3)) of
           Inl e \<Rightarrow> Inl e
         | Inr pos \<Rightarrow> Inr (ParticleField_loop count random 0 pos))"

text \<open>
  What the frame callback of the particle field can reach: the memoised position buffer
  and the \<open>points\<close> object.
\<close>

record particle_field =
  positions :: "real list"
  points :: object3d

definition ParticleField_useFrame :: "number \<Rightarrow> particle_field \<Rightarrow> particle_field" where
  "ParticleField_useFrame elapsedTime pf =
     (let points1 = (points pf)\<lparr>rot_y := num_mul elapsedTime (Fin 0.02)\<rparr>;
          points2 = points1\<lparr>rot_x := num_mul (Math_sin (num_mul elapsedTime (Fin 0.01))) (Fin 0.1)\<rparr>
      in pf\<lparr>points := points2\<rparr>)"


definition ParticleField_color :: "bool \<Rightarrow> string" where
  "ParticleField_color isDark = (if isDark then ''#c4b5fd'' else ''#7c3aed'')"

section \<open>The scenes\<close>

text \<open>
  A scene is the content of its \<open>Canvas\<close> element: the camera, the lights (intensity,
  optional color), the entities, and the particle field element with its props (the
  optional count and \<open>isDark\<close>).
\<close>

datatype light =
    ambientLight number "string option"
  | directionalLight vec3 number "string option"
  | pointLight vec3 number "string option"

datatype particles = ParticleField "number option" bool

record scene =
  camera_position :: vec3
  camera_fov :: number
  lights :: "light list"
  entities :: "entity list"
  particle_element :: "particles option"

definition NEO_cyan :: string where "NEO_cyan = ''#00f5ff''"
definition NEO_pink :: string where "NEO_pink = ''#ff2d6f''"
definition NEO_purple :: string where "NEO_purple = ''#b829dd''"

definition COLORS_red :: string where "COLORS_red = ''#E63946''"
definition COLORS_yellow :: string where "COLORS_yellow = ''#FFB703''"
definition COLORS_blue :: string where "COLORS_blue = ''#2B59C3''"

definition BOTAN_terracotta :: string where "BOTAN_terracotta = ''#C0654A''"
definition BOTAN_sage :: string where "BOTAN_sage = ''#8B9E6B''"
definition BOTAN_olive :: string where "BOTAN_olive = ''#6B7F4E''"

definition CosmicScene :: "bool \<Rightarrow> scene" where
  "CosmicScene isDark =
     \<lparr>camera_position = (Fin 0, Fin 0, Fin 6), camera_fov = Fin 60,
      lights =
        [ambientLight (Fin 0.4) None,
         directionalLight (Fin 5, Fin 5, Fin 5) (Fin 1) (Some (if isDark then ''#a78bfa'' else ''#7c3aed'')),
         pointLight (Fin (- 3), Fin (- 3), Fin 2) (Fin 0.8) (Some ''#c084fc''),
         pointLight (Fin 3, Fin 2, Fin (- 2)) (Fin 0.5) (Some ''#818cf8'')],
      entities =
        [CosmicOrb (Fin (- 2.5), Fin 1, Fin (- 1)) (if isDark then ''#7c3aed'' else ''#a78bfa'')
           (Some (Fin 0.8)) (Some (Fin 0.5)) (Some (Fin 0.8)),
         CosmicOrb (Fin 2.8, Fin (- 0.5), Fin 0) (if isDark then ''#6366f1'' else ''#818cf8'')
           (Some (Fin 1.2)) (Some (Fin 0.3)) (Some (Fin 0.6)),
         CosmicOrb (Fin 0.5, Fin 2, Fin (- 2)) ''#c084fc''
           (Some (Fin 0.6)) (Some (Fin 0.6)) (Some (Fin 0.5)),
         CosmicOrb (Fin (- 1.5), Fin (- 2), Fin 1) ''#a78bfa''
           (Some (Fin 1)) (Some (Fin 0.4)) (Some (Fin 0.4)),
         FloatingRing (Fin 1.5, Fin 1.5, Fin (- 1)) (if isDark then ''#a78bfa'' else ''#7c3aed''),
         FloatingRing (Fin (- 2), Fin (- 1), Fin 0) ''#818cf8''],
      particle_element = Some (ParticleField None isDark)\<rparr>"

definition CyberScene :: scene where
  "CyberScene =
     \<lparr>camera_position = (Fin 0, Fin 0, Fin 6), camera_fov = Fin 55,
      lights =
        [ambientLight (Fin 0.2) None,
         pointLight (Fin 3, Fin 3, Fin 3) (Fin 1) (Some NEO_cyan),
         pointLight (Fin (- 3), Fin (- 2), Fin 2) (Fin 0.8) (Some NEO_pink),
         pointLight (Fin 0, Fin 2, Fin (- 3)) (Fin 0.5) (Some NEO_purple)],
      entities =
        [NeonTorus (Fin (- 2.5), Fin 1, Fin (- 1)) NEO_cyan,
         NeonTorus (Fin 2.5, Fin (- 0.5), Fin 0) NEO_pink,
         NeonOctahedron (Fin 1, Fin 2, Fin (- 2)) NEO_purple,
         NeonOctahedron (Fin (- 1.5), Fin (- 1.5), Fin 0.5) NEO_cyan,
         Mesh (Fin 0, Fin 0, Fin (- 3)) None ''#0a0a12''],
      particle_element = None\<rparr>"

definition BauhausScene :: scene where
  "BauhausScene =
     \<lparr>camera_position = (Fin 0, Fin 0, Fin 7), camera_fov = Fin 50,
      lights =
        [ambientLight (Fin 0.6) None,
         directionalLight (Fin 5, Fin 5, Fin 5) (Fin 1.2) None,
         pointLight (Fin (- 5), Fin 3, Fin 2) (Fin 0.6) (Some COLORS_yellow)],
      entities =
        [GeoBlock (Fin (- 3), Fin 1.5, Fin (- 1)) COLORS_red None,
         GeoBlock (Fin 3, Fin (- 1), Fin 0) COLORS_blue (Some (Fin 0.5, Fin 0.5, Fin 0)),
         GeoCylinder (Fin 2.5, Fin 2, Fin (- 2)) COLORS_yellow,
         GeoSphere (Fin (- 2.5), Fin (- 1.5), Fin 0.5) COLORS_yellow (Some (Fin 0.7)),
         GeoSphere (Fin 0.5, Fin 2.5, Fin (- 1)) COLORS_red (Some (Fin 0.4)),
         Mesh (Fin (- 1), Fin (- 2), Fin (- 1)) (Some (Fin 0, Fin 0, Fin (pi / 4))) COLORS_blue],
      particle_element = None\<rparr>"

definition AuroraScene :: "bool \<Rightarrow> scene" where
  "AuroraScene isDark =
     \<lparr>camera_position = (Fin 0, Fin 0, Fin 6), camera_fov = Fin 55,
      lights =
        [ambientLight (Fin 0.5) None,
         directionalLight (Fin 5, Fin 5, Fin 5) (Fin 0.8) (Some ''#22d3ee''),
         pointLight (Fin (- 3), Fin 2, Fin 3) (Fin 0.6) (Some ''#a78bfa''),
         pointLight (Fin 3, Fin (- 2), Fin 2) (Fin 0.4) (Some ''#34d399'')],
      entities =
        [GlassOrb (Fin (- 2.5), Fin 1.2, Fin (- 1)) ''#22d3ee'' (Some (Fin 0.7)),
         GlassOrb (Fin 2.8, Fin (- 0.5), Fin 0) ''#a78bfa'' (Some (Fin 0.5)),
         GlassOrb (Fin 0.5, Fin 2.2, Fin (- 2)) ''#34d399'' (Some (Fin 0.4)),
         GlassOrb (Fin (- 1.2), Fin (- 1.8), Fin 0.5) ''#f472b6'' (Some (Fin 0.55))],
      particle_element = None\<rparr>"

definition BotanicalScene :: "bool \<Rightarrow> scene" where
  "BotanicalScene isDark =
     \<lparr>camera_position = (Fin 0, Fin 0, Fin 6), camera_fov = Fin 50,
      lights =
        [ambientLight (Fin 0.8) (Some ''#faf5ef''),
         directionalLight (Fin 5, Fin 5, Fin 5) (Fin 0.8) (Some ''#faf5ef''),
         pointLight (Fin (- 3), Fin 2, Fin 3) (Fin 0.4) (Some BOTAN_terracotta),
         pointLight (Fin 3, Fin (- 2), Fin 2) (Fin 0.3) (Some BOTAN_sage)],
      entities =
        [OrganicBlob (Fin (- 2.8), Fin 1.2, Fin (- 1)) BOTAN_terracotta (Some (Fin 0.8)),
         OrganicBlob (Fin 3, Fin (- 0.8), Fin 0) BOTAN_sage (Some (Fin 0.6)),
         OrganicBlob (Fin 0.5, Fin 2.3, Fin (- 2)) BOTAN_olive (Some (Fin 0.5)),
         LeafShape (Fin (- 1.5), Fin (- 1.8), Fin 0.5) BOTAN_sage None,
         LeafShape (Fin 2, Fin 1.5, Fin (- 1.5)) BOTAN_olive (Some (Fin 0.5, Fin 0, Fin 0.3))],
      particle_element = None\<rparr>"

text \<open>
  The theme-independent part of a scene: every color is blanked, and of a light only its
  kind and position are kept, of the particle field element only its count.
\<close>

fun entity_geometry :: "entity \<Rightarrow> entity" where
  "entity_geometry (CosmicOrb position color speed distort sz) = CosmicOrb position [] speed distort sz"
| "entity_geometry (FloatingRing position color) = FloatingRing position []"
| "entity_geometry (NeonTorus position color) = NeonTorus position []"
| "entity_geometry (NeonOctahedron position color) = NeonOctahedron position []"
| "entity_geometry (GeoBlock position color rotation) = GeoBlock position [] rotation"
| "entity_geometry (GeoCylinder position color) = GeoCylinder position []"
| "entity_geometry (GeoSphere position color sz) = GeoSphere position [] sz"
| "entity_geometry (GlassOrb position color sz) = GlassOrb position [] sz"
| "entity_geometry (OrganicBlob position color sz) = OrganicBlob position [] sz"
| "entity_geometry (LeafShape position color rotation) = LeafShape position [] rotation"
| "entity_geometry (Mesh position rotation color) = Mesh position rotation []"

fun light_geometry :: "light \<Rightarrow> light" where
  "light_geometry (ambientLight intensity color) = ambientLight (Fin 0) None"
| "light_geometry (directionalLight position intensity color) = directionalLight position (Fin 0) None"
| "light_geometry (pointLight position intensity color) = pointLight position (Fin 0) None"

fun particles_count :: "particles \<Rightarrow> number option" where
  "particles_count (ParticleField count isDark) = count"

definition scene_geometry :: "scene \<Rightarrow> vec3 \<times> number \<times> light list \<times> entity list \<times> number option option" where
  "scene_geometry sc =
     (camera_position sc, camera_fov sc, map light_geometry (lights sc),
      map entity_geometry (entities sc), map_option particles_count (particle_element sc))"

text \<open>A fixed source of draws for the examples: 0, 1/4, 1/2, 3/4, 0, ...\<close>

definition sample_random :: "nat \<Rightarrow> real" where
  "sample_random k = real (k mod 4) / 4"

section \<open>Rounding to binary64: monotone, idempotent, and its value at the literals\<close>

lemma rhe_of_int [simp]: "round_half_even (of_int n) = n"
  by (simp add: round_half_even_def)

lemma rhe_bounds: "\<lfloor>z\<rfloor> \<le> round_half_even z" "round_half_even z \<le> \<lfloor>z\<rfloor> + 1"
  by (simp_all add: round_half_even_def Let_def)

lemma rhe_mono: "z \<le> w \<Longrightarrow> round_half_even z \<le> round_half_even w"
proof -
  assume zw: "z \<le> w"
  then have fl: "\<lfloor>z\<rfloor> \<le> \<lfloor>w\<rfloor>" by (rule floor_mono)
  show ?thesis
  proof (cases "\<lfloor>z\<rfloor> = \<lfloor>w\<rfloor>")
    case True
    with zw show ?thesis
      by (auto simp: round_half_even_def Let_def)
  next
    case False
    with fl have "\<lfloor>z\<rfloor> + 1 \<le> \<lfloor>w\<rfloor>" by simp
    with rhe_bounds(2) [of z] rhe_bounds(1) [of w] show ?thesis by linarith
  qed
qed

lemma rhe_minus: "round_half_even (- z) = - round_half_even z"
proof (cases "z = of_int \<lfloor>z\<rfloor>")
  case True
  then obtain n where "z = of_int n" ..
  then show ?thesis
    by (simp del: of_int_minus add: of_int_minus [symmetric])
next
  case False
  then have c: "\<lceil>z\<rceil> = \<lfloor>z\<rfloor> + 1"
    by (simp add: ceiling_altdef)
  have f: "\<lfloor>- z\<rfloor> = - \<lfloor>z\<rfloor> - 1"
    using c by (simp add: floor_minus)
  show ?thesis
    unfolding round_half_even_def Let_def f
    by (auto simp: algebra_simps)
qed

lemma rhe_0 [simp]: "round_half_even 0 = 0"
  by (simp add: round_half_even_def)

lemma rhe_nonneg: "0 \<le> z \<Longrightarrow> 0 \<le> round_half_even z"
  using rhe_mono [of 0 z] by simp

lemma rhe_le_int: "z \<le> of_int n \<Longrightarrow> round_half_even z \<le> n"
  using rhe_mono [of z "of_int n"] by simp

lemma rhe_ge_int: "of_int n \<le> z \<Longrightarrow> n \<le> round_half_even z"
  using rhe_mono [of "of_int n" z] by simp

lemma rhe_near:
  "of_int n - 1 / 2 < z \<Longrightarrow> z < of_int n + 1 / 2 \<Longrightarrow> round_half_even z = n"
proof -
  assume a: "of_int n - 1 / 2 < z" and b: "z < of_int n + 1 / 2"
  show ?thesis
  proof (cases "of_int n \<le> z")
    case True
    with b have "\<lfloor>z\<rfloor> = n" by (intro floor_unique) linarith+
    with b show ?thesis by (simp add: round_half_even_def Let_def)
  next
    case False
    with a have "\<lfloor>z\<rfloor> = n - 1" by (intro floor_unique; simp; linarith)
    with a show ?thesis by (simp add: round_half_even_def Let_def)
  qed
qed


lemma exponent_ge: "- 1022 \<le> binary64_exponent x"
  by (simp add: binary64_exponent_def)

lemma exponent_minus: "binary64_exponent (- x) = binary64_exponent x"
  by (simp add: binary64_exponent_def)

lemma exponent_normal:
  assumes "2 powr of_int e \<le> \<bar>x\<bar>" and "\<bar>x\<bar> < 2 powr of_int (e + 1)" and "- 1022 \<le> e"
  shows "binary64_exponent x = e"
proof -
  have "0 < \<bar>x\<bar>" using assms(1) powr_gt_zero [of 2 "of_int e"] by linarith
  then have "\<lfloor>log 2 \<bar>x\<bar>\<rfloor> = e"
    using assms by (simp add: floor_log_eq_powr_iff)
  with assms(3) show ?thesis by (simp add: binary64_exponent_def)
qed

lemma exponent_subnormal:
  assumes "x \<noteq> 0" and "\<bar>x\<bar> < 2 powr of_int (- 1021)"
  shows "binary64_exponent x = - 1022"
proof -
  have pos: "0 < \<bar>x\<bar>" using assms(1) by simp
  have "log 2 \<bar>x\<bar> < of_int (- 1021)"
    using assms(2) pos by (simp add: log_less_iff)
  then have "\<lfloor>log 2 \<bar>x\<bar>\<rfloor> < - 1021" by (simp add: floor_less_iff)
  then show ?thesis by (simp add: binary64_exponent_def)
qed

lemma exponent_upper:
  assumes "x \<noteq> 0"
  shows "\<bar>x\<bar> < 2 powr of_int (binary64_exponent x + 1)"
proof -
  have pos: "0 < \<bar>x\<bar>" using assms by simp
  have "\<bar>x\<bar> < 2 powr of_int (\<lfloor>log 2 \<bar>x\<bar>\<rfloor> + 1)"
    using pos floor_log_eq_powr_iff [of "\<bar>x\<bar>" 2 "\<lfloor>log 2 \<bar>x\<bar>\<rfloor>"] by simp
  also have "\<dots> \<le> 2 powr of_int (binary64_exponent x + 1)"
    by (simp add: binary64_exponent_def)
  finally show ?thesis .
qed

lemma exponent_lower:
  assumes "x \<noteq> 0" and "- 1022 < binary64_exponent x"
  shows "2 powr of_int (binary64_exponent x) \<le> \<bar>x\<bar>"
proof -
  have pos: "0 < \<bar>x\<bar>" using assms by simp
  from assms(2) have "binary64_exponent x = \<lfloor>log 2 \<bar>x\<bar>\<rfloor>"
    by (simp add: binary64_exponent_def max_def split: if_splits)
  then show ?thesis
    using pos floor_log_eq_powr_iff [of "\<bar>x\<bar>" 2 "\<lfloor>log 2 \<bar>x\<bar>\<rfloor>"] by simp
qed

lemma exponent_mono:
  assumes "0 < x" and "x \<le> y"
  shows "binary64_exponent x \<le> binary64_exponent y"
proof -
  have "log 2 \<bar>x\<bar> \<le> log 2 \<bar>y\<bar>" using assms by simp
  then have "\<lfloor>log 2 \<bar>x\<bar>\<rfloor> \<le> \<lfloor>log 2 \<bar>y\<bar>\<rfloor>" by (rule floor_mono)
  then show ?thesis by (simp add: binary64_exponent_def)
qed


lemma binary64_0 [simp]: "binary64 0 = 0"
  by (simp add: binary64_def)

lemma binary64_minus: "binary64 (- x) = - binary64 x"
  by (simp add: binary64_def Let_def exponent_minus rhe_minus)

lemma binary64_normal:
  assumes "2 powr of_int e \<le> \<bar>x\<bar>" and "\<bar>x\<bar> < 2 powr of_int (e + 1)" and "- 1022 \<le> e"
  shows "binary64 x = 2 powr of_int (e - 52) * of_int (round_half_even (x / 2 powr of_int (e - 52)))"
proof -
  have "x \<noteq> 0" using assms(1) powr_gt_zero [of 2 "of_int e"] by auto
  then show ?thesis
    by (simp add: binary64_def Let_def exponent_normal [OF assms])
qed

lemma binary64_subnormal:
  assumes "\<bar>x\<bar> < 2 powr of_int (- 1021)"
  shows "binary64 x = 2 powr of_int (- 1074) * of_int (round_half_even (x / 2 powr of_int (- 1074)))"
proof (cases "x = 0")
  case True
  then show ?thesis by simp
next
  case False
  then show ?thesis
    by (simp add: binary64_def Let_def exponent_subnormal [OF False assms])
qed

lemma binary64_nonneg:
  assumes "0 \<le> x"
  shows "0 \<le> binary64 x"
proof (cases "x = 0")
  case True
  then show ?thesis by simp
next
  case False
  have "0 \<le> x / 2 powr of_int (binary64_exponent x - 52)"
    using assms by simp
  then have "0 \<le> round_half_even (x / 2 powr of_int (binary64_exponent x - 52))"
    by (rule rhe_nonneg)
  then show ?thesis
    using False by (simp add: binary64_def Let_def)
qed

lemma ulp_53: "(2::real) powr of_int (e - 52) * 2 ^ 53 = 2 powr of_int (e + 1)"
proof -
  have "(2::real) powr (of_int (e - 52) + 53) = 2 powr of_int (e + 1)"
    by (simp add: algebra_simps)
  moreover have "(2::real) powr 53 = 2 ^ 53" by simp
  ultimately show ?thesis by (simp only: powr_add)
qed

lemma ulp_52: "(2::real) powr of_int (e - 52) * 2 ^ 52 = 2 powr of_int e"
proof -
  have "(2::real) powr (of_int (e - 52) + 52) = 2 powr of_int e"
    by (simp add: algebra_simps)
  moreover have "(2::real) powr 52 = 2 ^ 52" by simp
  ultimately show ?thesis by (simp only: powr_add)
qed

lemma binary64_unfold:
  "x \<noteq> 0 \<Longrightarrow>
   binary64 x = 2 powr of_int (binary64_exponent x - 52)
                  * of_int (round_half_even (x / 2 powr of_int (binary64_exponent x - 52)))"
  by (simp add: binary64_def Let_def)

lemma binary64_upper:
  assumes "0 < x"
  shows "binary64 x \<le> 2 powr of_int (binary64_exponent x + 1)"
proof -
  let ?e = "binary64_exponent x"
  let ?u = "(2::real) powr of_int (?e - 52)"
  have u: "0 < ?u" by simp
  have "x < 2 powr of_int (?e + 1)"
    using exponent_upper [of x] assms by simp
  then have "x < ?u * 2 ^ 53" by (simp only: ulp_53)
  then have "x / ?u < 2 ^ 53"
    using u by (simp add: pos_divide_less_eq mult.commute)
  then have "x / ?u \<le> of_int (2 ^ 53)" by simp
  then have "round_half_even (x / ?u) \<le> 2 ^ 53" by (rule rhe_le_int)
  then have "real_of_int (round_half_even (x / ?u)) \<le> 2 ^ 53" by simp
  then have "?u * of_int (round_half_even (x / ?u)) \<le> ?u * 2 ^ 53"
    using u by (intro mult_left_mono) simp_all
  also have "\<dots> = 2 powr of_int (?e + 1)" by (rule ulp_53)
  finally have "?u * of_int (round_half_even (x / ?u)) \<le> 2 powr of_int (?e + 1)" .
  moreover have "binary64 x = ?u * of_int (round_half_even (x / ?u))"
    using assms by (intro binary64_unfold) simp
  ultimately show ?thesis by linarith
qed

lemma binary64_lower:
  assumes "0 < x" and "- 1022 < binary64_exponent x"
  shows "2 powr of_int (binary64_exponent x) \<le> binary64 x"
proof -
  let ?e = "binary64_exponent x"
  let ?u = "(2::real) powr of_int (?e - 52)"
  have u: "0 < ?u" by simp
  have "2 powr of_int ?e \<le> x"
    using exponent_lower [of x] assms by simp
  then have "?u * 2 ^ 52 \<le> x" by (simp only: ulp_52)
  then have "2 ^ 52 \<le> x / ?u"
    using u by (simp add: pos_le_divide_eq mult.commute)
  then have "of_int (2 ^ 52) \<le> x / ?u" by simp
  then have "2 ^ 52 \<le> round_half_even (x / ?u)" by (rule rhe_ge_int)
  then have "2 ^ 52 \<le> real_of_int (round_half_even (x / ?u))" by simp
  then have "?u * 2 ^ 52 \<le> ?u * of_int (round_half_even (x / ?u))"
    using u by (intro mult_left_mono) simp_all
  moreover have "?u * 2 ^ 52 = 2 powr of_int ?e" by (rule ulp_52)
  moreover have "binary64 x = ?u * of_int (round_half_even (x / ?u))"
    using assms by (intro binary64_unfold) simp
  ultimately show ?thesis by linarith
qed

lemma binary64_mono_pos:
  assumes "0 < x" and "x \<le> y"
  shows "binary64 x \<le> binary64 y"
proof (cases "binary64_exponent x = binary64_exponent y")
  case True
  let ?u = "(2::real) powr of_int (binary64_exponent y - 52)"
  have "x / ?u \<le> y / ?u" using assms by (simp add: divide_right_mono)
  then have "round_half_even (x / ?u) \<le> round_half_even (y / ?u)" by (rule rhe_mono)
  then show ?thesis
    using assms True by (simp add: binary64_def Let_def)
next
  case False
  with exponent_mono [OF assms] have lt: "binary64_exponent x + 1 \<le> binary64_exponent y"
    by simp
  with exponent_ge [of x] have "- 1022 < binary64_exponent y" by linarith
  then have "2 powr of_int (binary64_exponent y) \<le> binary64 y"
    using assms by (intro binary64_lower) simp_all
  moreover have "binary64 x \<le> 2 powr of_int (binary64_exponent x + 1)"
    using assms by (intro binary64_upper)
  moreover have "2 powr of_int (binary64_exponent x + 1) \<le> (2::real) powr of_int (binary64_exponent y)"
    using lt by simp
  ultimately show ?thesis by linarith
qed

lemma binary64_mono:
  assumes "x \<le> y"
  shows "binary64 x \<le> binary64 y"
proof -
  consider "0 < x" | "x \<le> 0" "0 \<le> y" | "y < 0" by linarith
  then show ?thesis
  proof cases
    case 1
    then show ?thesis using assms by (rule binary64_mono_pos)
  next
    case 2
    have "0 \<le> binary64 (- x)" using 2 by (intro binary64_nonneg) simp
    then have "binary64 x \<le> 0" by (simp add: binary64_minus)
    moreover have "0 \<le> binary64 y" using 2 by (intro binary64_nonneg)
    ultimately show ?thesis by linarith
  next
    case 3
    have "binary64 (- y) \<le> binary64 (- x)"
      using 3 assms by (intro binary64_mono_pos) simp_all
    then show ?thesis by (simp add: binary64_minus)
  qed
qed


lemma representable_pos:
  assumes e: "- 1022 \<le> e" and n: "0 < n" "n \<le> 2 ^ 53" and norm: "e = - 1022 \<or> 2 ^ 52 \<le> n"
  shows "binary64 (2 powr of_int (e - 52) * of_int n) = 2 powr of_int (e - 52) * of_int n"
proof -
  let ?u = "(2::real) powr of_int (e - 52)"
  let ?d = "?u * of_int n"
  have u: "0 < ?u" by simp
  have d: "0 < ?d" using u n(1) by simp
  show ?thesis
  proof (cases "n = 2 ^ 53")
    case True
    then have dn: "?d = 2 powr of_int (e + 1)"
      using ulp_53 [of e] by simp
    have lo: "2 powr of_int (e + 1) \<le> \<bar>?d\<bar>" using dn by simp
    have hi: "\<bar>?d\<bar> < 2 powr of_int (e + 1 + 1)" using dn by simp
    have "binary64 ?d = 2 powr of_int (e + 1 - 52) * of_int (round_half_even (?d / 2 powr of_int (e + 1 - 52)))"
      using lo hi e by (intro binary64_normal) simp_all
    moreover have "?d / 2 powr of_int (e + 1 - 52) = of_int (2 ^ 52)"
      using ulp_52 [of "e + 1"] dn by (simp add: field_simps)
    moreover have "(2::real) powr of_int (e + 1 - 52) * of_int (2 ^ 52) = 2 powr of_int (e + 1)"
      using ulp_52 [of "e + 1"] by simp
    ultimately show ?thesis using dn by (simp only: rhe_of_int)
  next
    case False
    with n have lt: "n < 2 ^ 53" by simp
    then have "real_of_int n < 2 ^ 53" by simp
    then have "?d < ?u * 2 ^ 53" using u by simp
    then have hi: "\<bar>?d\<bar> < 2 powr of_int (e + 1)"
      using d by (simp only: ulp_53 abs_of_pos)
    have q: "?d / ?u = of_int n" by simp
    from norm show ?thesis
    proof
      assume sub: "e = - 1022"
      have "binary64 ?d = 2 powr of_int (- 1074) * of_int (round_half_even (?d / 2 powr of_int (- 1074)))"
        using hi sub by (intro binary64_subnormal) simp
      moreover have "(2::real) powr of_int (- 1074) = ?u" using sub by simp
      ultimately show ?thesis by (simp only: q rhe_of_int)
    next
      assume "2 ^ 52 \<le> n"
      then have "2 ^ 52 \<le> real_of_int n" by simp
      then have "?u * 2 ^ 52 \<le> ?d" using u by simp
      then have lo: "2 powr of_int e \<le> \<bar>?d\<bar>"
        using d by (simp only: ulp_52 abs_of_pos)
      have "binary64 ?d = ?u * of_int (round_half_even (?d / ?u))"
        using lo hi e by (rule binary64_normal)
      then show ?thesis by (simp only: q rhe_of_int)
    qed
  qed
qed

lemma representable:
  assumes e: "- 1022 \<le> e" and n: "\<bar>n\<bar> \<le> 2 ^ 53" and norm: "e = - 1022 \<or> 2 ^ 52 \<le> \<bar>n\<bar>"
  shows "binary64 (2 powr of_int (e - 52) * of_int n) = 2 powr of_int (e - 52) * of_int n"
proof -
  consider "n = 0" | "0 < n" | "n < 0" by linarith
  then show ?thesis
  proof cases
    case 1
    then show ?thesis by simp
  next
    case 2
    with assms show ?thesis by (intro representable_pos) simp_all
  next
    case 3
    with assms have "binary64 (2 powr of_int (e - 52) * of_int (- n)) = 2 powr of_int (e - 52) * of_int (- n)"
      by (intro representable_pos) simp_all
    then have "binary64 (- (2 powr of_int (e - 52) * of_int n)) = - (2 powr of_int (e - 52) * of_int n)"
      by simp
    then show ?thesis by (simp only: binary64_minus neg_equal_iff_equal)
  qed
qed

lemma binary64_idem_pos:
  assumes "0 < x"
  shows "binary64 (binary64 x) = binary64 x"
proof -
  let ?e = "binary64_exponent x"
  let ?u = "(2::real) powr of_int (?e - 52)"
  let ?n = "round_half_even (x / ?u)"
  have u: "0 < ?u" by simp
  have b: "binary64 x = ?u * of_int ?n"
    using assms by (intro binary64_unfold) simp
  have n0: "0 \<le> ?n" using assms u by (intro rhe_nonneg) simp
  have "?u * of_int ?n \<le> ?u * 2 ^ 53"
    using binary64_upper [OF assms] by (simp only: b ulp_53)
  then have "real_of_int ?n \<le> 2 ^ 53" using u by simp
  then have n53: "?n \<le> 2 ^ 53" by simp
  have norm: "?e = - 1022 \<or> 2 ^ 52 \<le> \<bar>?n\<bar>"
  proof (cases "?e = - 1022")
    case True
    then show ?thesis by simp
  next
    case False
    with exponent_ge [of x] have "- 1022 < ?e" by simp
    from binary64_lower [OF assms this] have "?u * 2 ^ 52 \<le> ?u * of_int ?n"
      by (simp only: b ulp_52)
    then have "2 ^ 52 \<le> real_of_int ?n" using u by simp
    then have "2 ^ 52 \<le> ?n" by simp
    then show ?thesis by simp
  qed
  have "binary64 (?u * of_int ?n) = ?u * of_int ?n"
    using exponent_ge [of x] n0 n53 norm by (intro representable) simp_all
  then show ?thesis by (simp only: b)
qed

lemma binary64_idem: "binary64 (binary64 x) = binary64 x"
proof -
  consider "x = 0" | "0 < x" | "x < 0" by linarith
  then show ?thesis
  proof cases
    case 1
    then show ?thesis by simp
  next
    case 2
    then show ?thesis by (rule binary64_idem_pos)
  next
    case 3
    then have "binary64 (binary64 (- x)) = binary64 (- x)"
      by (intro binary64_idem_pos) simp
    then show ?thesis by (simp add: binary64_minus)
  qed
qed

lemma binary64_near:
  assumes "2 powr of_int e \<le> \<bar>x\<bar>" and "\<bar>x\<bar> < 2 powr of_int (e + 1)" and "- 1022 \<le> e"
    and "of_int n - 1 / 2 < x / 2 powr of_int (e - 52)"
    and "x / 2 powr of_int (e - 52) < of_int n + 1 / 2"
  shows "binary64 x = 2 powr of_int (e - 52) * of_int n"
  using binary64_normal [OF assms(1-3)] rhe_near [OF assms(4,5)] by simp

lemma binary64_0003: "binary64 0.003 = 6917529027641082 / 2 ^ 61"
  using binary64_near [of "- 9" "0.003" 6917529027641082]
  by (simp add: powr_neg_numeral)

lemma binary64_001: "binary64 0.01 = 5764607523034235 / 2 ^ 59"
  using binary64_near [of "- 7" "0.01" 5764607523034235]
  by (simp add: powr_neg_numeral)

lemma binary64_0002: "binary64 0.002 = 4611686018427388 / 2 ^ 61"
  using binary64_near [of "- 9" "0.002" 4611686018427388]
  by (simp add: powr_neg_numeral)

lemma binary64_600: "binary64 600 = 600"
  using binary64_near [of 9 600 "600 * 2 ^ 43"]
  by (simp add: powr_neg_numeral)



lemma binary64_m1: "binary64 (- 1) = - 1"
  using binary64_near [of 0 "- 1" "- (2 ^ 52)"]
  by (simp add: powr_neg_numeral)

section \<open>Running frames\<close>

lemma frames_append: "frames cb (ts @ us) s = frames cb us (frames cb ts s)"
  by (induction ts arbitrary: s) simp_all

lemma frames_snoc: "frames cb (ts @ [t]) s = cb t (frames cb ts s)"
  by (simp add: frames_append)

lemma length_ticks: "length (ticks dt n) = n"
  by (simp add: ticks_def)

lemma ticks_Suc: "ticks dt (Suc n) = ticks dt n @ [Fin (real (Suc n) * dt)]"
  by (simp add: ticks_def)

lemmas useFrame_defs =
  CosmicOrb_useFrame_def FloatingRing_useFrame_def NeonTorus_useFrame_def
  NeonOctahedron_useFrame_def GeoBlock_useFrame_def GeoCylinder_useFrame_def
  GeoSphere_useFrame_def GlassOrb_useFrame_def OrganicBlob_useFrame_def LeafShape_useFrame_def

lemma frames_accumulate:
  assumes step: "\<And>t r. rot_y (cb t r) = num_add (rot_y r) (Fin inc)"
  shows "rot_y (frames cb ts (ref\<lparr>rot_y := Fin y\<rparr>)) = Fin (y + real (length ts) * inc)"
proof (induction ts rule: rev_induct)
  case Nil
  show ?case by simp
next
  case (snoc t ts)
  then show ?case
    by (simp add: frames_snoc step algebra_simps)
qed

lemma frames_untouched:
  assumes "\<And>t r. f (cb t r) = f r"
  shows "f (frames cb ts ref) = f ref"
  using assms by (induction ts arbitrary: ref) simp_all

lemma frames_last:
  assumes ts: "ts \<noteq> []"
    and cb: "(\<forall>t r. f (cb t r) = f r) \<or> (\<forall>t r r'. f (cb t r) = f (cb t r'))"
  shows "f (frames cb ts ref) = f (cb (last ts) ref)"
proof -
  from ts obtain us t where us: "ts = us @ [t]"
    by (cases ts rule: rev_cases) auto
  from cb show ?thesis
  proof
    assume keep: "\<forall>t r. f (cb t r) = f r"
    then have "f (frames cb ts ref) = f ref"
      by (intro frames_untouched) simp
    with keep show ?thesis by simp
  next
    assume "\<forall>t r r'. f (cb t r) = f (cb t r')"
    then have "f (cb t (frames cb us ref)) = f (cb t ref)" by blast
    then show ?thesis by (simp add: us frames_snoc)
  qed
qed

lemma useFrame_rot_x:
  "(\<forall>t r. rot_x (useFrame e t r) = rot_x r) \<or> (\<forall>t r r'. rot_x (useFrame e t r) = rot_x (useFrame e t r'))"
  by (cases e) (simp_all add: useFrame_defs Let_def)

lemma useFrame_rot_z:
  "(\<forall>t r. rot_z (useFrame e t r) = rot_z r) \<or> (\<forall>t r r'. rot_z (useFrame e t r) = rot_z (useFrame e t r'))"
  by (cases e) (simp_all add: useFrame_defs Let_def)

lemma useFrame_pos_x: "pos_x (useFrame e t r) = pos_x r"
  by (cases e) (simp_all add: useFrame_defs Let_def)

lemma useFrame_pos_z: "pos_z (useFrame e t r) = pos_z r"
  by (cases e) (simp_all add: useFrame_defs Let_def)

lemma useFrame_pos_y:
  "(\<forall>t r. pos_y (useFrame e t r) = pos_y r) \<or> (\<forall>t r r'. pos_y (useFrame e t r) = pos_y (useFrame e t r'))"
  by (cases e) (simp_all add: useFrame_defs Let_def)

lemma CosmicOrb_step: "rot_y (CosmicOrb_useFrame (Some (Fin s)) t r) = num_add (rot_y r) (Fin (0.003 * s))"
  by (simp add: CosmicOrb_useFrame_def Let_def)

lemma NeonOctahedron_step: "rot_y (NeonOctahedron_useFrame t r) = num_add (rot_y r) (Fin 0.01)"
  by (simp add: NeonOctahedron_useFrame_def Let_def)

lemma OrganicBlob_step: "rot_y (OrganicBlob_useFrame t r) = num_add (rot_y r) (Fin 0.002)"
  by (simp add: OrganicBlob_useFrame_def Let_def)

lemma GeoBlock_step: "rot_y (GeoBlock_useFrame t r) = num_add (rot_y r) (Fin 0.005)"
  by (simp add: GeoBlock_useFrame_def Let_def)

lemma GlassOrb_step: "rot_y (GlassOrb_useFrame p t r) = num_add (rot_y r) (Fin 0.003)"
  by (simp add: GlassOrb_useFrame_def Let_def)

lemma LeafShape_step: "rot_y (LeafShape_useFrame t r) = num_add (rot_y r) (Fin 0.003)"
  by (simp add: LeafShape_useFrame_def Let_def)

lemma frames_rot_y_clock:
  assumes "ts1 \<noteq> []" and "ts2 \<noteq> []" and "last ts1 = last ts2"
    and "(\<forall>t r. rot_y (cb t r) = rot_y r) \<or> (\<forall>t r r'. rot_y (cb t r) = rot_y (cb t r'))"
  shows "rot_y (frames cb ts1 ref) = rot_y (frames cb ts2 ref)"
  using assms frames_last [of ts1 rot_y cb ref] frames_last [of ts2 rot_y cb ref] by simp

lemma mount_rot_y: "base_rotation e = None \<Longrightarrow> mount e = (mount e)\<lparr>rot_y := Fin 0\<rparr>"
  by (simp add: mount_def object_at_def)

lemma last_ticks: "0 < n \<Longrightarrow> last (ticks dt n) = Fin (real n * dt)"
  by (cases n) (simp_all add: ticks_Suc)

lemma CosmicOrb_double_step:
  "rot_y (CosmicOrb_useFrame_double sine (Some (Fin s)) t r)
     = double_add (rot_y r) (Fin (binary64 (binary64 0.003 * s)))"
  by (simp add: CosmicOrb_useFrame_double_def Let_def)

lemma NeonOctahedron_double_step:
  "rot_y (NeonOctahedron_useFrame_double sine t r) = double_add (rot_y r) (Fin (binary64 0.01))"
  by (simp add: NeonOctahedron_useFrame_double_def Let_def)

lemma OrganicBlob_double_step:
  "rot_y (OrganicBlob_useFrame_double sine t r) = double_add (rot_y r) (Fin (binary64 0.002))"
  by (simp add: OrganicBlob_useFrame_double_def Let_def)

lemma spin_double_step:
  assumes "0 < s"
    and "cb = CosmicOrb_useFrame_double sine (Some (Fin s)) \<and> inc = binary64 (binary64 0.003 * s)
         \<or> cb = NeonOctahedron_useFrame_double sine \<and> inc = binary64 0.01
         \<or> cb = OrganicBlob_useFrame_double sine \<and> inc = binary64 0.002"
  shows "rot_y (cb t r) = double_add (rot_y r) (Fin inc)" and "0 \<le> inc"
proof -
  show "rot_y (cb t r) = double_add (rot_y r) (Fin inc)"
    using assms(2)
    by (auto simp: CosmicOrb_double_step NeonOctahedron_double_step OrganicBlob_double_step)
  have "0 \<le> binary64 0.003" by (rule binary64_nonneg) simp
  then have "0 \<le> binary64 0.003 * s"
    using assms(1) by simp
  then have "0 \<le> binary64 (binary64 0.003 * s)" by (rule binary64_nonneg)
  moreover have "0 \<le> binary64 0.01" by (rule binary64_nonneg) simp
  moreover have "0 \<le> binary64 0.002" by (rule binary64_nonneg) simp
  ultimately show "0 \<le> inc" using assms(2) by auto
qed

lemma frames_accumulate_double:
  assumes step: "\<And>t r. rot_y (cb t r) = double_add (rot_y r) (Fin inc)"
    and inc: "0 \<le> inc" and y: "binary64 y = y"
  shows "\<exists>a. rot_y (frames cb ts (ref\<lparr>rot_y := Fin y\<rparr>)) = Fin a \<and> binary64 a = a \<and> y \<le> a"
proof (induction ts rule: rev_induct)
  case Nil
  show ?case using y by simp
next
  case (snoc t ts)
  then obtain a where a: "rot_y (frames cb ts (ref\<lparr>rot_y := Fin y\<rparr>)) = Fin a"
      "binary64 a = a" "y \<le> a"
    by blast
  have "binary64 a \<le> binary64 (a + inc)"
    using inc by (intro binary64_mono) simp
  then have "a \<le> binary64 (a + inc)" by (simp only: a(2))
  with a show ?case
    by (simp add: frames_snoc step binary64_idem)
qed

section \<open>The particle field: the fill loop and what the callback keeps\<close>

lemma loop_unfold:
  "num_less (Fin (real i)) count \<Longrightarrow>
   ParticleField_loop count random i pos =
     ParticleField_loop count random (Suc i)
          (pos[i * 3 := (random (3 * i) - 0.5) * 20,
               i * 3 + 1 := (random (3 * i + 1) - 0.5) * 20,
               i * 3 + 2 := (random (3 * i + 2) - 0.5) * 10])"
  by (subst ParticleField_loop.simps) simp

lemma loop_done:
  "\<not> num_less (Fin (real i)) count \<Longrightarrow> ParticleField_loop count random i pos = pos"
  by (subst ParticleField_loop.simps) simp

lemma loop_length: "length (ParticleField_loop count random i pos) = length pos"
proof (induction count random i pos rule: ParticleField_loop.induct)
  case (1 count random i pos)
  show ?case
  proof (cases "num_less (Fin (real i)) count")
    case True
    with "1" show ?thesis by (simp add: loop_unfold)
  next
    case False
    then show ?thesis by (simp add: loop_done)
  qed
qed

lemma loop_prefix: "j < 3 * i \<Longrightarrow> ParticleField_loop count random i pos ! j = pos ! j"
proof (induction count random i pos rule: ParticleField_loop.induct)
  case (1 count random i pos)
  show ?case
  proof (cases "num_less (Fin (real i)) count")
    case True
    have "ParticleField_loop count random i pos ! j =
          (pos[i * 3 := (random (3 * i) - 0.5) * 20,
               i * 3 + 1 := (random (3 * i + 1) - 0.5) * 20,
               i * 3 + 2 := (random (3 * i + 2) - 0.5) * 10]) ! j"
      using "1.IH" [OF True] "1.prems" by (simp add: loop_unfold [OF True])
    also have "\<dots> = pos ! j"
      using "1.prems" by simp
    finally show ?thesis .
  next
    case False
    then show ?thesis by (simp add: loop_done)
  qed
qed

lemma loop_written:
  assumes "real i < c" and "3 * i + 2 < length pos"
  shows "ParticleField_loop (Fin c) random i pos ! (3 * i) = (random (3 * i) - 0.5) * 20"
    and "ParticleField_loop (Fin c) random i pos ! (3 * i + 1) = (random (3 * i + 1) - 0.5) * 20"
    and "ParticleField_loop (Fin c) random i pos ! (3 * i + 2) = (random (3 * i + 2) - 0.5) * 10"
  using assms by (simp_all add: loop_unfold loop_prefix mult.commute)

lemma loop_all:
  assumes "real k < c" and "i \<le> k" and "3 * k + 2 < length pos"
  shows "ParticleField_loop (Fin c) random i pos ! (3 * k) = (random (3 * k) - 0.5) * 20
       \<and> ParticleField_loop (Fin c) random i pos ! (3 * k + 1) = (random (3 * k + 1) - 0.5) * 20
       \<and> ParticleField_loop (Fin c) random i pos ! (3 * k + 2) = (random (3 * k + 2) - 0.5) * 10"
  using assms
proof (induction "k - i" arbitrary: i pos)
  case 0
  then have ik: "i = k" by simp
  from loop_written [OF "0.prems"(1) "0.prems"(3)] show ?case
    unfolding ik by blast
next
  case (Suc d)
  then have lt: "Suc i \<le> k" and d: "d = k - Suc i" by simp_all
  then have ic: "num_less (Fin (real i)) (Fin c)" using Suc.prems(1) by simp
  let ?pos = "pos[i * 3 := (random (3 * i) - 0.5) * 20,
               i * 3 + 1 := (random (3 * i + 1) - 0.5) * 20,
               i * 3 + 2 := (random (3 * i + 2) - 0.5) * 10]"
  have len: "3 * k + 2 < length ?pos" using Suc.prems(3) by simp
  have step: "ParticleField_loop (Fin c) random i pos = ParticleField_loop (Fin c) random (Suc i) ?pos"
    by (rule loop_unfold [OF ic])
  from Suc.hyps(1) [OF d Suc.prems(1) lt len] show ?case
    unfolding step .
qed

lemma positions_200:
  "ParticleField_positions (Some (Fin 200)) random
     = Inr (ParticleField_loop (Fin 200) random 0 (replicate 600 0))"
  by (simp add: ParticleField_positions_def new_Float32Array_def ToIntegerOrInfinity_def Let_def
      binary64_600)




lemma draw_bounds:
  assumes "0 \<le> (r::real)" and "r < 1"
  shows "- 10 \<le> (r - 0.5) * 20" and "(r - 0.5) * 20 \<le> 10"
    and "- 5 \<le> (r - 0.5) * 10" and "(r - 0.5) * 10 \<le> 5"
  using assms by simp_all

lemma sample_random_unit: "0 \<le> sample_random k \<and> sample_random k < 1"
proof -
  have "k mod 4 < 4" by simp
  then have "real (k mod 4) < 4" by linarith
  then show ?thesis by (simp add: sample_random_def)
qed

lemma ParticleField_useFrame_keeps:
  "positions (ParticleField_useFrame t pf) = positions pf"
  "rot_z (points (ParticleField_useFrame t pf)) = rot_z (points pf)"
  "pos_x (points (ParticleField_useFrame t pf)) = pos_x (points pf)"
  "pos_y (points (ParticleField_useFrame t pf)) = pos_y (points pf)"
  "pos_z (points (ParticleField_useFrame t pf)) = pos_z (points pf)"
  by (simp_all add: ParticleField_useFrame_def Let_def)

section \<open>Positions and theme\<close>

lemma frames_pos_x: "pos_x (frames (useFrame e) ts ref) = pos_x ref"
  by (rule frames_untouched) (rule useFrame_pos_x)

lemma frames_pos_z: "pos_z (frames (useFrame e) ts ref) = pos_z ref"
  by (rule frames_untouched) (rule useFrame_pos_z)

lemma useFrame_pos_y_keep:
  assumes "\<forall>p c sz. e \<noteq> GlassOrb p c sz \<and> e \<noteq> GeoSphere p c sz"
  shows "pos_y (useFrame e t ref) = pos_y ref"
  using assms by (cases e) (simp_all add: useFrame_defs Let_def)

lemma mount_position:
  "pos_x (mount e) = fst (base_position e)"
  "pos_y (mount e) = fst (snd (base_position e))"
  "pos_z (mount e) = snd (snd (base_position e))"
  by (simp_all add: mount_def object_at_def Let_def)

lemma useFrame_entity_geometry: "useFrame (entity_geometry e) = useFrame e"
  by (cases e) simp_all

lemma mount_entity_geometry: "mount (entity_geometry e) = mount e"
  by (cases e) (simp_all add: mount_def)

lemma same_geometry_same_motion:
  assumes "map entity_geometry es = map entity_geometry es'"
  shows "map (\<lambda>e. frames (useFrame e) ts (mount e)) es = map (\<lambda>e. frames (useFrame e) ts (mount e)) es'"
proof -
  have g: "map (\<lambda>e. frames (useFrame e) ts (mount e)) xs
          = map (\<lambda>g. frames (useFrame g) ts (mount g)) (map entity_geometry xs)" for xs
    by (simp add: o_def useFrame_entity_geometry mount_entity_geometry)
  have "map (\<lambda>e. frames (useFrame e) ts (mount e)) es
          = map (\<lambda>g. frames (useFrame g) ts (mount g)) (map entity_geometry es)"
    by (rule g)
  also have "\<dots> = map (\<lambda>g. frames (useFrame g) ts (mount g)) (map entity_geometry es')"
    by (simp only: assms)
  also have "\<dots> = map (\<lambda>e. frames (useFrame e) ts (mount e)) es'"
    by (rule g [symmetric])
  finally show ?thesis .
qed

lemma CosmicScene_geometry: "scene_geometry (CosmicScene True) = scene_geometry (CosmicScene False)"
  by (simp add: scene_geometry_def CosmicScene_def)

lemma AuroraScene_geometry: "AuroraScene True = AuroraScene False"
  by (simp add: AuroraScene_def)

lemma BotanicalScene_geometry: "BotanicalScene True = BotanicalScene False"
  by (simp add: BotanicalScene_def)

section \<open>The claims\<close>

text \<open>
  C1 (as amended). The claim that every final transform is the same at 60 and at 30 frames
  per second fails for the accumulated rotation.y. What holds: for two non-empty frame
  sequences that end at the same clock reading, every component other than rotation.y
  ends equal for every entity, and so does rotation.y for the ring, the torus, the
  cylinder and the sphere; the rotation.y of the orb, the octahedron, the blob, the
  block, the glass orb and the leaf is its start value plus the number of frames times
  the increment, so it depends on the frame count.
\<close>

theorem C1_clock_driven_rate_independent:
  assumes "ts1 \<noteq> []" and "ts2 \<noteq> []" and "last ts1 = last ts2"
  shows "rot_x (frames (useFrame e) ts1 ref) = rot_x (frames (useFrame e) ts2 ref)
       \<and> rot_z (frames (useFrame e) ts1 ref) = rot_z (frames (useFrame e) ts2 ref)
       \<and> pos_x (frames (useFrame e) ts1 ref) = pos_x (frames (useFrame e) ts2 ref)
       \<and> pos_y (frames (useFrame e) ts1 ref) = pos_y (frames (useFrame e) ts2 ref)
       \<and> pos_z (frames (useFrame e) ts1 ref) = pos_z (frames (useFrame e) ts2 ref)
       \<and> rot_y (frames FloatingRing_useFrame ts1 ref) = rot_y (frames FloatingRing_useFrame ts2 ref)
       \<and> rot_y (frames NeonTorus_useFrame ts1 ref) = rot_y (frames NeonTorus_useFrame ts2 ref)
       \<and> rot_y (frames GeoCylinder_useFrame ts1 ref) = rot_y (frames GeoCylinder_useFrame ts2 ref)
       \<and> rot_y (frames (GeoSphere_useFrame p) ts1 ref) = rot_y (frames (GeoSphere_useFrame p) ts2 ref)
       \<and> rot_y (frames (CosmicOrb_useFrame (Some (Fin s))) ts1 (ref\<lparr>rot_y := Fin y\<rparr>))
           = Fin (y + real (length ts1) * (0.003 * s))
       \<and> rot_y (frames NeonOctahedron_useFrame ts1 (ref\<lparr>rot_y := Fin y\<rparr>))
           = Fin (y + real (length ts1) * 0.01)
       \<and> rot_y (frames OrganicBlob_useFrame ts1 (ref\<lparr>rot_y := Fin y\<rparr>))
           = Fin (y + real (length ts1) * 0.002)
       \<and> rot_y (frames GeoBlock_useFrame ts1 (ref\<lparr>rot_y := Fin y\<rparr>))
           = Fin (y + real (length ts1) * 0.005)
       \<and> rot_y (frames (GlassOrb_useFrame p) ts1 (ref\<lparr>rot_y := Fin y\<rparr>))
           = Fin (y + real (length ts1) * 0.003)
       \<and> rot_y (frames LeafShape_useFrame ts1 (ref\<lparr>rot_y := Fin y\<rparr>))
           = Fin (y + real (length ts1) * 0.003)"
proof -
  have x: "rot_x (frames (useFrame e) ts1 ref) = rot_x (frames (useFrame e) ts2 ref)"
    using assms frames_last [of ts1 rot_x "useFrame e" ref] frames_last [of ts2 rot_x "useFrame e" ref]
      useFrame_rot_x [of e] by simp
  have z: "rot_z (frames (useFrame e) ts1 ref) = rot_z (frames (useFrame e) ts2 ref)"
    using assms frames_last [of ts1 rot_z "useFrame e" ref] frames_last [of ts2 rot_z "useFrame e" ref]
      useFrame_rot_z [of e] by simp
  have py: "pos_y (frames (useFrame e) ts1 ref) = pos_y (frames (useFrame e) ts2 ref)"
    using assms frames_last [of ts1 pos_y "useFrame e" ref] frames_last [of ts2 pos_y "useFrame e" ref]
      useFrame_pos_y [of e] by simp
  have px: "pos_x (frames (useFrame e) ts1 ref) = pos_x (frames (useFrame e) ts2 ref)"
    by (simp add: frames_untouched [of pos_x] useFrame_pos_x)
  have pz: "pos_z (frames (useFrame e) ts1 ref) = pos_z (frames (useFrame e) ts2 ref)"
    by (simp add: frames_untouched [of pos_z] useFrame_pos_z)
  have ring: "rot_y (frames FloatingRing_useFrame ts1 ref) = rot_y (frames FloatingRing_useFrame ts2 ref)"
    by (rule frames_rot_y_clock [OF assms]) (simp add: FloatingRing_useFrame_def Let_def)
  have torus: "rot_y (frames NeonTorus_useFrame ts1 ref) = rot_y (frames NeonTorus_useFrame ts2 ref)"
    by (rule frames_rot_y_clock [OF assms]) (simp add: NeonTorus_useFrame_def Let_def)
  have cyl: "rot_y (frames GeoCylinder_useFrame ts1 ref) = rot_y (frames GeoCylinder_useFrame ts2 ref)"
    by (rule frames_rot_y_clock [OF assms]) (simp add: GeoCylinder_useFrame_def Let_def)
  have sphere: "rot_y (frames (GeoSphere_useFrame p) ts1 ref) = rot_y (frames (GeoSphere_useFrame p) ts2 ref)"
    by (rule frames_rot_y_clock [OF assms]) (simp add: GeoSphere_useFrame_def Let_def)
  have orb: "rot_y (frames (CosmicOrb_useFrame (Some (Fin s))) ts1 (ref\<lparr>rot_y := Fin y\<rparr>))
           = Fin (y + real (length ts1) * (0.003 * s))"
    by (rule frames_accumulate) (rule CosmicOrb_step)
  have oct: "rot_y (frames NeonOctahedron_useFrame ts1 (ref\<lparr>rot_y := Fin y\<rparr>))
           = Fin (y + real (length ts1) * 0.01)"
    by (rule frames_accumulate) (rule NeonOctahedron_step)
  have blob: "rot_y (frames OrganicBlob_useFrame ts1 (ref\<lparr>rot_y := Fin y\<rparr>))
           = Fin (y + real (length ts1) * 0.002)"
    by (rule frames_accumulate) (rule OrganicBlob_step)
  have block: "rot_y (frames GeoBlock_useFrame ts1 (ref\<lparr>rot_y := Fin y\<rparr>))
           = Fin (y + real (length ts1) * 0.005)"
    by (rule frames_accumulate) (rule GeoBlock_step)
  have glass: "rot_y (frames (GlassOrb_useFrame p) ts1 (ref\<lparr>rot_y := Fin y\<rparr>))
           = Fin (y + real (length ts1) * 0.003)"
    by (rule frames_accumulate) (rule GlassOrb_step)
  have leaf: "rot_y (frames LeafShape_useFrame ts1 (ref\<lparr>rot_y := Fin y\<rparr>))
           = Fin (y + real (length ts1) * 0.003)"
    by (rule frames_accumulate) (rule LeafShape_step)
  from x z px py pz ring torus cyl sphere orb oct blob block glass leaf show ?thesis
    by blast
qed

text \<open>
  An instance of the amended C1: two frames ending at second 1 against one frame at second 1.
\<close>

theorem C1_witness:
  "[Fin 0.5, Fin 1] \<noteq> [] \<and> [Fin 1] \<noteq> [] \<and> last [Fin 0.5, Fin 1] = last [Fin 1]
   \<and> rot_x (frames (useFrame (CosmicOrb (Fin (- 1.5), Fin (- 2), Fin 1) ''#a78bfa'' (Some (Fin 1)) (Some (Fin 0.4)) (Some (Fin 0.4))))
              [Fin 0.5, Fin 1] (object_at (Fin (- 1.5), Fin (- 2), Fin 1) None))
       = rot_x (frames (useFrame (CosmicOrb (Fin (- 1.5), Fin (- 2), Fin 1) ''#a78bfa'' (Some (Fin 1)) (Some (Fin 0.4)) (Some (Fin 0.4))))
              [Fin 1] (object_at (Fin (- 1.5), Fin (- 2), Fin 1) None))
   \<and> rot_y (frames (CosmicOrb_useFrame (Some (Fin 1))) [Fin 0.5, Fin 1]
              ((object_at (Fin (- 1.5), Fin (- 2), Fin 1) None)\<lparr>rot_y := Fin 0\<rparr>))
       = Fin (0 + real (length [Fin 0.5, Fin 1]) * (0.003 * 1))"
  using C1_clock_driven_rate_independent [where ?ts1.0 = "[Fin 0.5, Fin 1]" and ?ts2.0 = "[Fin 1]"
      and e = "CosmicOrb (Fin (- 1.5), Fin (- 2), Fin 1) ''#a78bfa'' (Some (Fin 1)) (Some (Fin 0.4)) (Some (Fin 0.4))"
      and ref = "object_at (Fin (- 1.5), Fin (- 2), Fin 1) None" and s = 1 and y = 0]
  by simp

text \<open>
  C1 as stated fails: one second at 60 frames per second and one second at 30 frames per
  second end at the same clock reading, and the fourth orb of the cosmic scene (speed 1)
  ends with rotation.y = 0.18 in the first run and 0.09 in the second.
\<close>

theorem C1_counterexample:
  "last (ticks (1 / 60) 60) = last (ticks (1 / 30) 30)
   \<and> rot_y (frames (useFrame (CosmicOrb (Fin (- 1.5), Fin (- 2), Fin 1) ''#a78bfa'' (Some (Fin 1)) (Some (Fin 0.4)) (Some (Fin 0.4))))
              (ticks (1 / 60) 60)
              (mount (CosmicOrb (Fin (- 1.5), Fin (- 2), Fin 1) ''#a78bfa'' (Some (Fin 1)) (Some (Fin 0.4)) (Some (Fin 0.4)))))
       = Fin 0.18
   \<and> rot_y (frames (useFrame (CosmicOrb (Fin (- 1.5), Fin (- 2), Fin 1) ''#a78bfa'' (Some (Fin 1)) (Some (Fin 0.4)) (Some (Fin 0.4))))
              (ticks (1 / 30) 30)
              (mount (CosmicOrb (Fin (- 1.5), Fin (- 2), Fin 1) ''#a78bfa'' (Some (Fin 1)) (Some (Fin 0.4)) (Some (Fin 0.4)))))
       = Fin 0.09"
proof -
  let ?orb = "CosmicOrb (Fin (- 1.5), Fin (- 2), Fin 1) ''#a78bfa'' (Some (Fin 1)) (Some (Fin 0.4)) (Some (Fin 0.4))"
  have m: "mount ?orb = (mount ?orb)\<lparr>rot_y := Fin 0\<rparr>"
    by (rule mount_rot_y) simp
  have run: "rot_y (frames (useFrame ?orb) ts (mount ?orb)) = Fin (real (length ts) * 0.003)" for ts
    using frames_accumulate [where cb = "CosmicOrb_useFrame (Some (Fin 1))" and inc = "0.003 * 1"
        and ts = ts and ref = "mount ?orb" and y = 0, OF CosmicOrb_step] m
    by simp
  have l: "last (ticks (1 / 60) 60) = last (ticks (1 / 30) 30)"
    by (simp add: last_ticks)
  show ?thesis
    using l run [of "ticks (1 / 60) 60"] run [of "ticks (1 / 30) 30"]
    by (simp add: length_ticks)
qed

text \<open>
  C2. The orb callback sets rotation.x = sin(t * speed * 0.3) * 0.2 and adds 0.003 * speed
  to rotation.y; an orb with speed 1 mounted at (0, 0, 0) and advanced 100 frames at a
  fixed step dt has rotation.y = 0.3 and rotation.x = sin(total_elapsed * 0.3) * 0.2,
  where total_elapsed = 100 * dt.
\<close>

theorem C2_orb_formula_and_hundred_frames:
  "rot_x (CosmicOrb_useFrame (Some (Fin speed)) (Fin t) ref) = Fin (sin (t * speed * 0.3) * 0.2)
   \<and> rot_y (CosmicOrb_useFrame (Some (Fin speed)) (Fin t) (ref\<lparr>rot_y := Fin y\<rparr>)) = Fin (y + 0.003 * speed)
   \<and> rot_y (frames (useFrame (CosmicOrb (Fin 0, Fin 0, Fin 0) color (Some (Fin 1)) distort sz))
              (ticks dt 100)
              (mount (CosmicOrb (Fin 0, Fin 0, Fin 0) color (Some (Fin 1)) distort sz))) = Fin 0.3
   \<and> rot_x (frames (useFrame (CosmicOrb (Fin 0, Fin 0, Fin 0) color (Some (Fin 1)) distort sz))
              (ticks dt 100)
              (mount (CosmicOrb (Fin 0, Fin 0, Fin 0) color (Some (Fin 1)) distort sz)))
       = Fin (sin (100 * dt * 0.3) * 0.2)"
proof -
  let ?orb = "CosmicOrb (Fin 0, Fin 0, Fin 0) color (Some (Fin 1)) distort sz"
  have m: "mount ?orb = (mount ?orb)\<lparr>rot_y := Fin 0\<rparr>"
    by (simp add: mount_def object_at_def)
  have "rot_y (frames (CosmicOrb_useFrame (Some (Fin 1))) (ticks dt 100) ((mount ?orb)\<lparr>rot_y := Fin 0\<rparr>))
          = Fin (0 + real (length (ticks dt 100)) * (0.003 * 1))"
    by (rule frames_accumulate) (rule CosmicOrb_step)
  then have y: "rot_y (frames (useFrame ?orb) (ticks dt 100) (mount ?orb)) = Fin 0.3"
    using m by (simp add: length_ticks)
  have "ticks dt 100 = ticks dt 99 @ [Fin (real (Suc 99) * dt)]"
    using ticks_Suc [of dt 99] by simp
  then have x: "rot_x (frames (useFrame ?orb) (ticks dt 100) (mount ?orb))
                  = Fin (sin (100 * dt * 0.3) * 0.2)"
    by (simp add: frames_snoc CosmicOrb_useFrame_def Let_def)
  show ?thesis
    using x y by (simp add: CosmicOrb_useFrame_def Let_def)
qed



text \<open>
  C4. With every draw of Math.random() in [0, 1), the particle field with count 200 (given
  or by default) yields a buffer of 3 * 200 coordinates, the i-th position being
  ((r - 0.5) * 20, (r' - 0.5) * 20, (r'' - 0.5) * 10) for its three draws, so x and y lie
  in [-10, 10] and z in [-5, 5].
\<close>

theorem C4_two_hundred_positions_in_bounds:
  assumes "\<forall>k. 0 \<le> random k \<and> random k < 1"
  shows "\<exists>pos. ParticleField_positions (Some (Fin 200)) random = Inr pos
           \<and> ParticleField_positions None random = Inr pos
           \<and> length pos = 3 * 200
           \<and> (\<forall>i<200. pos ! (3 * i) = (random (3 * i) - 0.5) * 20
                     \<and> pos ! (3 * i + 1) = (random (3 * i + 1) - 0.5) * 20
                     \<and> pos ! (3 * i + 2) = (random (3 * i + 2) - 0.5) * 10
                     \<and> - 10 \<le> pos ! (3 * i) \<and> pos ! (3 * i) \<le> 10
                     \<and> - 10 \<le> pos ! (3 * i + 1) \<and> pos ! (3 * i + 1) \<le> 10
                     \<and> - 5 \<le> pos ! (3 * i + 2) \<and> pos ! (3 * i + 2) \<le> 5)"
proof -
  let ?pos = "ParticleField_loop (Fin 200) random 0 (replicate 600 0)"
  have some: "ParticleField_positions (Some (Fin 200)) random = Inr ?pos"
    by (rule positions_200)
  then have none: "ParticleField_positions None random = Inr ?pos"
    by (simp add: ParticleField_positions_def)
  have len: "length ?pos = 3 * 200"
    by (simp add: loop_length)
  have cell: "?pos ! (3 * i) = (random (3 * i) - 0.5) * 20
            \<and> ?pos ! (3 * i + 1) = (random (3 * i + 1) - 0.5) * 20
            \<and> ?pos ! (3 * i + 2) = (random (3 * i + 2) - 0.5) * 10" if "i < 200" for i
    using that by (intro loop_all) simp_all
  have box: "- 10 \<le> ?pos ! (3 * i) \<and> ?pos ! (3 * i) \<le> 10
           \<and> - 10 \<le> ?pos ! (3 * i + 1) \<and> ?pos ! (3 * i + 1) \<le> 10
           \<and> - 5 \<le> ?pos ! (3 * i + 2) \<and> ?pos ! (3 * i + 2) \<le> 5" if "i < 200" for i
    using cell [OF that] assms draw_bounds [of "random (3 * i)"] draw_bounds [of "random (3 * i + 1)"]
      draw_bounds [of "random (3 * i + 2)"]
    by simp
  from some none len cell box show ?thesis
    by (intro exI [of _ ?pos]) simp
qed

text \<open>
  An instance of C4: the sample draws and position 7.
\<close>

theorem C4_witness:
  "(\<forall>k. 0 \<le> sample_random k \<and> sample_random k < 1)
   \<and> (7::nat) < 200
   \<and> (\<exists>pos. ParticleField_positions (Some (Fin 200)) sample_random = Inr pos
           \<and> length pos = 3 * 200
           \<and> pos ! (3 * 7) = (sample_random (3 * 7) - 0.5) * 20
           \<and> - 10 \<le> pos ! (3 * 7) \<and> pos ! (3 * 7) \<le> 10
           \<and> - 10 \<le> pos ! (3 * 7 + 1) \<and> pos ! (3 * 7 + 1) \<le> 10
           \<and> - 5 \<le> pos ! (3 * 7 + 2) \<and> pos ! (3 * 7 + 2) \<le> 5)"
proof -
  have unit: "\<forall>k. 0 \<le> sample_random k \<and> sample_random k < 1"
    using sample_random_unit by blast
  have seven: "(7::nat) < 200" by simp
  from C4_two_hundred_positions_in_bounds [OF unit] obtain pos where
    pos: "ParticleField_positions (Some (Fin 200)) sample_random = Inr pos" "length pos = 3 * 200"
      and cells: "\<forall>i<200. pos ! (3 * i) = (sample_random (3 * i) - 0.5) * 20
                     \<and> pos ! (3 * i + 1) = (sample_random (3 * i + 1) - 0.5) * 20
                     \<and> pos ! (3 * i + 2) = (sample_random (3 * i + 2) - 0.5) * 10
                     \<and> - 10 \<le> pos ! (3 * i) \<and> pos ! (3 * i) \<le> 10
                     \<and> - 10 \<le> pos ! (3 * i + 1) \<and> pos ! (3 * i + 1) \<le> 10
                     \<and> - 5 \<le> pos ! (3 * i + 2) \<and> pos ! (3 * i + 2) \<le> 5"
    by blast
  from cells seven have
    "pos ! (3 * 7) = (sample_random (3 * 7) - 0.5) * 20
     \<and> - 10 \<le> pos ! (3 * 7) \<and> pos ! (3 * 7) \<le> 10
     \<and> - 10 \<le> pos ! (3 * 7 + 1) \<and> pos ! (3 * 7 + 1) \<le> 10
     \<and> - 5 \<le> pos ! (3 * 7 + 2) \<and> pos ! (3 * 7 + 2) \<le> 5"
    by blast
  with pos unit seven show ?thesis by blast
qed

text \<open>
  C5 (as amended). The particle field callback assigns both angles from the clock:
  rotation.y = t * 0.02 and rotation.x = sin(t * 0.01) * 0.1. rotation.y is not
  incremented.
\<close>

theorem C5_rotation_assigned:
  "points (ParticleField_useFrame (Fin t) pf)
     = (points pf)\<lparr>rot_y := Fin (t * 0.02), rot_x := Fin (sin (t * 0.01) * 0.1)\<rparr>"
  by (simp add: ParticleField_useFrame_def Let_def)

text \<open>
  C5 as stated fails: from the mounted field, after a frame at second 1 rotation.y is 0.02,
  and after the next frame at second 2 it is 0.04, where adding 0.02 * 2 to 0.02 would
  give 0.06.
\<close>

theorem C5_counterexample:
  "rot_y (points (frames ParticleField_useFrame [Fin 1]
       \<lparr>positions = [], points = object_at (Fin 0, Fin 0, Fin 0) None\<rparr>)) = Fin 0.02
   \<and> rot_y (points (frames ParticleField_useFrame [Fin 1, Fin 2]
       \<lparr>positions = [], points = object_at (Fin 0, Fin 0, Fin 0) None\<rparr>)) = Fin 0.04
   \<and> num_add (Fin 0.02) (num_mul (Fin 0.02) (Fin 2)) = Fin 0.06"
  by (simp add: ParticleField_useFrame_def Let_def)

text \<open>
  C6. Over any sequence of frames the position buffer of the particle field is unchanged,
  as are rotation.z and the position of the points object; one frame changes nothing
  but rotation.y and rotation.x of the points object.
\<close>

theorem C6_positions_fixed:
  "positions (frames ParticleField_useFrame ts pf) = positions pf
   \<and> rot_z (points (frames ParticleField_useFrame ts pf)) = rot_z (points pf)
   \<and> pos_x (points (frames ParticleField_useFrame ts pf)) = pos_x (points pf)
   \<and> pos_y (points (frames ParticleField_useFrame ts pf)) = pos_y (points pf)
   \<and> pos_z (points (frames ParticleField_useFrame ts pf)) = pos_z (points pf)
   \<and> ParticleField_useFrame t pf
       = pf\<lparr>points := (points pf)\<lparr>rot_y := rot_y (points (ParticleField_useFrame t pf)),
                                  rot_x := rot_x (points (ParticleField_useFrame t pf))\<rparr>\<rparr>"
proof -
  have "positions (frames ParticleField_useFrame ts pf) = positions pf"
    by (rule frames_untouched) (rule ParticleField_useFrame_keeps)
  moreover have "rot_z (points (frames ParticleField_useFrame ts pf)) = rot_z (points pf)"
    by (rule frames_untouched [where f = "\<lambda>s. rot_z (points s)"]) (rule ParticleField_useFrame_keeps)
  moreover have "pos_x (points (frames ParticleField_useFrame ts pf)) = pos_x (points pf)"
    by (rule frames_untouched [where f = "\<lambda>s. pos_x (points s)"]) (rule ParticleField_useFrame_keeps)
  moreover have "pos_y (points (frames ParticleField_useFrame ts pf)) = pos_y (points pf)"
    by (rule frames_untouched [where f = "\<lambda>s. pos_y (points s)"]) (rule ParticleField_useFrame_keeps)
  moreover have "pos_z (points (frames ParticleField_useFrame ts pf)) = pos_z (points pf)"
    by (rule frames_untouched [where f = "\<lambda>s. pos_z (points s)"]) (rule ParticleField_useFrame_keeps)
  moreover have "ParticleField_useFrame t pf
       = pf\<lparr>points := (points pf)\<lparr>rot_y := rot_y (points (ParticleField_useFrame t pf)),
                                  rot_x := rot_x (points (ParticleField_useFrame t pf))\<rparr>\<rparr>"
    by (simp add: ParticleField_useFrame_def Let_def)
  ultimately show ?thesis by blast
qed

text \<open>
  C7. For the three scenes that receive the theme (cosmic, aurora, botanical), the dark and
  the light scene agree on everything but colors: camera, light kinds and positions,
  entity kinds, positions, speeds, distortions and sizes, and the particle count; their
  entities, run from mounting over any frame sequence, end in the same transforms. A
  callback and the mounted object do not depend on the entity's color.
\<close>

theorem C7_theme_changes_colors_only:
  "scene_geometry (CosmicScene True) = scene_geometry (CosmicScene False)
   \<and> scene_geometry (AuroraScene True) = scene_geometry (AuroraScene False)
   \<and> scene_geometry (BotanicalScene True) = scene_geometry (BotanicalScene False)
   \<and> map (\<lambda>e. frames (useFrame e) ts (mount e)) (entities (CosmicScene True))
       = map (\<lambda>e. frames (useFrame e) ts (mount e)) (entities (CosmicScene False))
   \<and> map (\<lambda>e. frames (useFrame e) ts (mount e)) (entities (AuroraScene True))
       = map (\<lambda>e. frames (useFrame e) ts (mount e)) (entities (AuroraScene False))
   \<and> map (\<lambda>e. frames (useFrame e) ts (mount e)) (entities (BotanicalScene True))
       = map (\<lambda>e. frames (useFrame e) ts (mount e)) (entities (BotanicalScene False))
   \<and> useFrame (entity_geometry e) = useFrame e
   \<and> mount (entity_geometry e) = mount e"
proof -
  have "map entity_geometry (entities (CosmicScene True)) = map entity_geometry (entities (CosmicScene False))"
    using CosmicScene_geometry by (simp add: scene_geometry_def)
  then have "map (\<lambda>e. frames (useFrame e) ts (mount e)) (entities (CosmicScene True))
       = map (\<lambda>e. frames (useFrame e) ts (mount e)) (entities (CosmicScene False))"
    by (rule same_geometry_same_motion)
  then show ?thesis
    using CosmicScene_geometry
    by (simp add: AuroraScene_geometry BotanicalScene_geometry useFrame_entity_geometry mount_entity_geometry)
qed




text \<open>
  C9. No callback writes position.x or position.z, and only the glass orb and the sphere
  write position.y, as base_y + sin(t * 0.5) * 0.3 and base_y + sin(t * 0.5) * 0.2; run
  from mounting, every entity keeps its base x and z, and every entity other than those
  two keeps its base y.
\<close>

theorem C9_base_position_kept:
  "pos_x (useFrame e t ref) = pos_x ref
   \<and> pos_z (useFrame e t ref) = pos_z ref
   \<and> ((\<forall>p c sz. e \<noteq> GlassOrb p c sz \<and> e \<noteq> GeoSphere p c sz) \<longrightarrow> pos_y (useFrame e t ref) = pos_y ref)
   \<and> pos_y (useFrame (GlassOrb (px, py, pz) c sz) (Fin u) ref) = num_add py (Fin (sin (u * 0.5) * 0.3))
   \<and> pos_y (useFrame (GeoSphere (px, py, pz) c sz) (Fin u) ref) = num_add py (Fin (sin (u * 0.5) * 0.2))
   \<and> pos_x (frames (useFrame e) ts (mount e)) = fst (base_position e)
   \<and> pos_z (frames (useFrame e) ts (mount e)) = snd (snd (base_position e))
   \<and> ((\<forall>p c sz. e \<noteq> GlassOrb p c sz \<and> e \<noteq> GeoSphere p c sz)
        \<longrightarrow> pos_y (frames (useFrame e) ts (mount e)) = fst (snd (base_position e)))"
proof -
  have keep: "pos_y (frames (useFrame e) ts (mount e)) = pos_y (mount e)"
    if "\<forall>p c sz. e \<noteq> GlassOrb p c sz \<and> e \<noteq> GeoSphere p c sz"
    by (rule frames_untouched) (rule useFrame_pos_y_keep [OF that])
  have glass: "pos_y (useFrame (GlassOrb (px, py, pz) c sz) (Fin u) ref) = num_add py (Fin (sin (u * 0.5) * 0.3))"
    by (cases py) (simp_all add: GlassOrb_useFrame_def Let_def)
  have sphere: "pos_y (useFrame (GeoSphere (px, py, pz) c sz) (Fin u) ref) = num_add py (Fin (sin (u * 0.5) * 0.2))"
    by (cases py) (simp_all add: GeoSphere_useFrame_def Let_def)
  show ?thesis
    using keep glass sphere
    by (simp add: useFrame_pos_x useFrame_pos_z useFrame_pos_y_keep frames_pos_x frames_pos_z mount_position)
qed

text \<open>
  An instance of C9: a ring of the cosmic scene keeps its base y = 1.5.
\<close>

theorem C9_witness:
  "(\<forall>p c sz. FloatingRing (Fin 1.5, Fin 1.5, Fin (- 1)) ''#818cf8'' \<noteq> GlassOrb p c sz
            \<and> FloatingRing (Fin 1.5, Fin 1.5, Fin (- 1)) ''#818cf8'' \<noteq> GeoSphere p c sz)
   \<and> pos_y (useFrame (FloatingRing (Fin 1.5, Fin 1.5, Fin (- 1)) ''#818cf8'') (Fin 2)
              (mount (FloatingRing (Fin 1.5, Fin 1.5, Fin (- 1)) ''#818cf8''))) = Fin 1.5
   \<and> pos_y (frames (useFrame (FloatingRing (Fin 1.5, Fin 1.5, Fin (- 1)) ''#818cf8'')) [Fin 1, Fin 2]
              (mount (FloatingRing (Fin 1.5, Fin 1.5, Fin (- 1)) ''#818cf8''))) = Fin 1.5"
  using C9_base_position_kept [where e = "FloatingRing (Fin 1.5, Fin 1.5, Fin (- 1)) ''#818cf8''"
      and t = "Fin 2" and ts = "[Fin 1, Fin 2]"
      and ref = "mount (FloatingRing (Fin 1.5, Fin 1.5, Fin (- 1)) ''#818cf8'')"]
  by (simp add: mount_position)

text \<open>
  C10 (as amended). In double arithmetic, for the orb with positive speed, the octahedron
  and the blob, started from a double and for any clock readings (NaN included): while
  rotation.y stays a finite double, its value after one more frame is the rounded sum of
  its value and the increment (the double product of 0.003 and speed, 0.01, 0.002), and
  is never smaller than before. It is not always greater.
\<close>

theorem C10_spin_never_decreases:
  assumes "0 < s"
    and "cb = CosmicOrb_useFrame_double sine (Some (Fin s)) \<and> inc = binary64 (binary64 0.003 * s)
         \<or> cb = NeonOctahedron_useFrame_double sine \<and> inc = binary64 0.01
         \<or> cb = OrganicBlob_useFrame_double sine \<and> inc = binary64 0.002"
    and "is_double y"
    and "rot_y (frames cb ts (ref\<lparr>rot_y := Fin y\<rparr>)) = Fin a"
    and "is_double (binary64 (a + inc))"
  shows "rot_y (frames cb (ts @ [t]) (ref\<lparr>rot_y := Fin y\<rparr>)) = Fin (binary64 (a + inc))
       \<and> a \<le> binary64 (a + inc) \<and> y \<le> a \<and> is_double a"
proof -
  have step: "rot_y (cb t r) = double_add (rot_y r) (Fin inc)" for t r
    using assms(1,2) by (rule spin_double_step)
  have inc: "0 \<le> inc"
    using assms(1,2) by (rule spin_double_step)
  have y: "binary64 y = y"
    using assms(3) by (simp add: is_double_def)
  from frames_accumulate_double [of cb inc y ts ref, OF step inc y] assms(4)
  have a: "binary64 a = a" "y \<le> a" by auto
  have "binary64 a \<le> binary64 (a + inc)"
    using inc by (intro binary64_mono) simp
  then have up: "a \<le> binary64 (a + inc)" by (simp only: a(1))
  have "\<bar>a\<bar> \<le> max_double"
    using assms(3,5) a(2) up by (simp add: is_double_def) linarith
  then have "is_double a" using a(1) by (simp add: is_double_def)
  moreover have "rot_y (frames cb (ts @ [t]) (ref\<lparr>rot_y := Fin y\<rparr>)) = Fin (binary64 (a + inc))"
    by (simp add: frames_snoc step assms(4))
  ultimately show ?thesis using up a(2) by simp
qed

text \<open>
  An instance of the amended C10: the orb with speed 1 from rotation.y = 0, first frame,
  with a NaN clock.
\<close>

theorem C10_witness:
  "(0::real) < 1
   \<and> is_double 0
   \<and> rot_y (frames (CosmicOrb_useFrame_double sin (Some (Fin 1))) []
              ((object_at (Fin 0, Fin 0, Fin 0) None)\<lparr>rot_y := Fin 0\<rparr>)) = Fin 0
   \<and> is_double (binary64 (0 + binary64 (binary64 0.003 * 1)))
   \<and> rot_y (frames (CosmicOrb_useFrame_double sin (Some (Fin 1))) ([] @ [NaN])
              ((object_at (Fin 0, Fin 0, Fin 0) None)\<lparr>rot_y := Fin 0\<rparr>))
       = Fin (binary64 (0 + binary64 (binary64 0.003 * 1)))
   \<and> 0 \<le> binary64 (0 + binary64 (binary64 0.003 * 1))"
proof -
  have v: "binary64 (0 + binary64 (binary64 0.003 * 1)) = binary64 0.003"
    by (simp add: binary64_idem)
  have d0: "is_double 0"
    by (simp add: is_double_def max_double_def)
  have "\<bar>binary64 0.003\<bar> \<le> max_double"
    unfolding binary64_0003 max_double_def by simp
  then have d1: "is_double (binary64 (0 + binary64 (binary64 0.003 * 1)))"
    unfolding v by (simp add: is_double_def binary64_idem)
  have st: "rot_y (frames (CosmicOrb_useFrame_double sin (Some (Fin 1))) []
              ((object_at (Fin 0, Fin 0, Fin 0) None)\<lparr>rot_y := Fin 0\<rparr>)) = Fin 0"
    by simp
  have one: "(0::real) < 1" by simp
  from C10_spin_never_decreases [where s = 1 and cb = "CosmicOrb_useFrame_double sin (Some (Fin 1))"
      and sine = sin and inc = "binary64 (binary64 0.003 * 1)" and y = 0 and ts = "[]"
      and ref = "object_at (Fin 0, Fin 0, Fin 0) None" and a = 0 and t = NaN, OF one _ d0 st d1]
  show ?thesis using one d0 st d1 by simp
qed

text \<open>
  C10 as stated fails in double arithmetic. The fourth orb of the cosmic scene with the
  positive speed 2^-1074 (the smallest double), freshly mounted: 0.003 * speed is 0, and
  rotation.y is 0 before and after the frame. The octahedron at rotation.y = 2^60: adding
  0.01 gives 2^60 again.
\<close>

theorem C10_counterexample:
  "(0::real) < 1 / 2 ^ 1074
   \<and> is_double (1 / 2 ^ 1074)
   \<and> rot_y (mount (CosmicOrb (Fin (- 1.5), Fin (- 2), Fin 1) ''#a78bfa'' (Some (Fin (1 / 2 ^ 1074))) (Some (Fin 0.4)) (Some (Fin 0.4))))
       = Fin 0
   \<and> rot_y (CosmicOrb_useFrame_double sin (Some (Fin (1 / 2 ^ 1074))) (Fin 1)
              (mount (CosmicOrb (Fin (- 1.5), Fin (- 2), Fin 1) ''#a78bfa'' (Some (Fin (1 / 2 ^ 1074))) (Some (Fin 0.4)) (Some (Fin 0.4)))))
       = Fin 0
   \<and> is_double (2 ^ 60)
   \<and> rot_y (NeonOctahedron_useFrame_double sin (Fin 1)
              ((object_at (Fin 1, Fin 2, Fin (- 2)) None)\<lparr>rot_y := Fin (2 ^ 60)\<rparr>))
       = Fin (2 ^ 60)"
proof -
  have tiny: "binary64 (binary64 0.003 * (1 / 2 ^ 1074)) = 0"
  proof -
    have "binary64 (binary64 0.003 * (1 / 2 ^ 1074))
            = 2 powr of_int (- 1074)
                * of_int (round_half_even (binary64 0.003 * (1 / 2 ^ 1074) / 2 powr of_int (- 1074)))"
      unfolding binary64_0003 by (rule binary64_subnormal) (simp add: powr_neg_numeral)
    moreover have "round_half_even (binary64 0.003 * (1 / 2 ^ 1074) / 2 powr of_int (- 1074)) = 0"
      unfolding binary64_0003 by (rule rhe_near) (simp_all add: powr_neg_numeral)
    ultimately show ?thesis by simp
  qed
  have min_double: "binary64 (1 / 2 ^ 1074) = 1 / 2 ^ 1074"
    using representable [of "- 1022" 1] by (simp add: powr_neg_numeral)
  have big: "binary64 (2 ^ 60) = 2 ^ 60"
    using representable [of 60 "2 ^ 52"] by simp
  have absorbed: "binary64 (2 ^ 60 + binary64 0.01) = 2 ^ 60"
    unfolding binary64_001
    using binary64_near [of 60 "2 ^ 60 + 5764607523034235 / 2 ^ 59" "2 ^ 52"]
    by simp
  have d1: "is_double (1 / 2 ^ 1074)"
    using min_double by (simp add: is_double_def max_double_def)
  have d2: "is_double (2 ^ 60)"
    using big by (simp add: is_double_def max_double_def)
  have m: "rot_y (mount (CosmicOrb (Fin (- 1.5), Fin (- 2), Fin 1) ''#a78bfa'' (Some (Fin (1 / 2 ^ 1074))) (Some (Fin 0.4)) (Some (Fin 0.4))))
       = Fin 0"
    by (simp add: mount_def object_at_def)
  have orb: "rot_y (CosmicOrb_useFrame_double sin (Some (Fin (1 / 2 ^ 1074))) (Fin 1)
              (mount (CosmicOrb (Fin (- 1.5), Fin (- 2), Fin 1) ''#a78bfa'' (Some (Fin (1 / 2 ^ 1074))) (Some (Fin 0.4)) (Some (Fin 0.4)))))
       = Fin 0"
    by (simp only: CosmicOrb_double_step m double_add.simps tiny add_0 binary64_0)
  have oct: "rot_y (NeonOctahedron_useFrame_double sin (Fin 1)
              ((object_at (Fin 1, Fin 2, Fin (- 2)) None)\<lparr>rot_y := Fin (2 ^ 60)\<rparr>))
       = Fin (2 ^ 60)"
  proof -
    have sel: "rot_y ((object_at (Fin 1, Fin 2, Fin (- 2)) None)\<lparr>rot_y := Fin (2 ^ 60)\<rparr>) = Fin (2 ^ 60)"
      by simp
    show ?thesis
      by (simp only: NeonOctahedron_double_step sel double_add.simps absorbed)
  qed
  from d1 d2 orb oct m show ?thesis by simp
qed

end
